theory Spec2Isabelle
  imports Complex_Main
begin

section \<open>Fermionic operators\<close>

text \<open>
  Modelled from the spec: the operator module of the external framework (\<open>c\<close>,
  \<open>c_dag\<close>, \<open>n\<close>, \<open>Operator\<close> and their arithmetic), which is not in the
  repository; the notebook on fermionic operators says that \<open>c\<close> and \<open>c_dag\<close> take a
  block name and an index inside the block, that \<open>n\<close> is \<open>c_dag * c\<close>, and that
  expressions are simplified by the anticommutation relations. An operator is
  represented by its action on the occupation-number (Fock) basis of the flavours
  \<open>fops\<close> handed to the solver: a basis state is the list of occupations in the order
  of \<open>fops\<close>, a wave function gives an amplitude to every basis state, and an operator
  maps wave functions to wave functions. The sign of a creation or annihilation
  operator is the parity of the occupied flavours that stand before it. On finitely
  many flavours this representation of the anticommutation relations is faithful, so
  two operator expressions are the same operator exactly when they act alike on every
  wave function. All coefficients of the scripts are real, and so are the amplitudes.
\<close>

type_synonym fock = "bool list"
type_synonym wavefn = "fock \<Rightarrow> real"
type_synonym many_body_op = "wavefn \<Rightarrow> wavefn"

text \<open>An operator index is a block name and an index inside the block.\<close>

type_synonym op_index = "string \<times> nat"

text \<open>
  The position of an index in \<open>fops\<close>; an index that is not listed gets the position
  \<open>length fops\<close>, outside every basis state, where the operators below act as zero.
\<close>

definition fop_pos :: "op_index list \<Rightarrow> op_index \<Rightarrow> nat" where
  "fop_pos fops l = length (takeWhile (\<lambda>x. x \<noteq> l) fops)"

definition jw_sign :: "nat \<Rightarrow> fock \<Rightarrow> real" where
  "jw_sign i s = (if even (length (filter id (take i s))) then 1 else - 1)"

definition c_at :: "nat \<Rightarrow> many_body_op" where
  "c_at i psi s = (if i < length s \<and> \<not> s ! i then jw_sign i s * psi (s[i := True]) else 0)"

definition c_dag_at :: "nat \<Rightarrow> many_body_op" where
  "c_dag_at i psi s = (if i < length s \<and> s ! i then jw_sign i s * psi (s[i := False]) else 0)"

text \<open>\<open>Operator()\<close> is the zero operator; \<open>+\<close>, \<open>*\<close> and the product with a number follow.\<close>

definition Operator :: many_body_op where
  "Operator psi s = 0"

definition op_add :: "many_body_op \<Rightarrow> many_body_op \<Rightarrow> many_body_op" where
  "op_add a b psi s = a psi s + b psi s"

definition op_mul :: "many_body_op \<Rightarrow> many_body_op \<Rightarrow> many_body_op" where
  "op_mul a b psi = a (b psi)"

definition op_scale :: "real \<Rightarrow> many_body_op \<Rightarrow> many_body_op" where
  "op_scale x a psi s = x * a psi s"

definition c :: "op_index list \<Rightarrow> string \<Rightarrow> nat \<Rightarrow> many_body_op" where
  "c fops b i = c_at (fop_pos fops (b, i))"

definition c_dag :: "op_index list \<Rightarrow> string \<Rightarrow> nat \<Rightarrow> many_body_op" where
  "c_dag fops b i = c_dag_at (fop_pos fops (b, i))"

text \<open>The keyword \<open>n\<close> is \<open>c_dag * c\<close>.\<close>

definition n :: "op_index list \<Rightarrow> string \<Rightarrow> nat \<Rightarrow> many_body_op" where
  "n fops b i = op_mul (c_dag fops b i) (c fops b i)"

text \<open>Python's \<open>'%i' % k\<close> and \<open>'%s' % k\<close> for a natural number: its decimal digits.\<close>

fun digit_char :: "nat \<Rightarrow> char" where
  "digit_char k = (if k = 0 then CHR ''0'' else if k = 1 then CHR ''1'' else if k = 2 then CHR ''2''
     else if k = 3 then CHR ''3'' else if k = 4 then CHR ''4'' else if k = 5 then CHR ''5''
     else if k = 6 then CHR ''6'' else if k = 7 then CHR ''7'' else if k = 8 then CHR ''8''
     else CHR ''9'')"

fun fmt_i :: "nat \<Rightarrow> string" where
  "fmt_i k = (if k < 10 then [digit_char k] else fmt_i (k div 10) @ [digit_char (k mod 10)])"

declare fmt_i.simps [simp del]

text \<open>\<open>itertools.product(xs, ys)\<close>: all pairs, the second component running fastest.\<close>

definition product :: "'a list \<Rightarrow> 'b list \<Rightarrow> ('a \<times> 'b) list" where
  "product xs ys = concat (map (\<lambda>x. map (\<lambda>y. (x, y)) ys) xs)"

section \<open>The two-orbital script: the Kanamori Hamiltonian\<close>

definition two_band_n_orbitals :: nat where
  "two_band_n_orbitals = 2"

definition two_band_gf_struct :: "(string \<times> nat) list" where
  "two_band_gf_struct = [(''up-0'', 1), (''up-1'', 1), (''down-0'', 1), (''down-1'', 1)]"

text \<open>Every block has size 1, so the flavours are the block names with inner index 0.\<close>

definition two_band_fops :: "op_index list" where
  "two_band_fops = map (\<lambda>(b, sz). (b, 0)) two_band_gf_struct"

text \<open>
  \<open>h_int\<close> as the script accumulates it: four loops over the orbitals, each adding
  terms to the operator built so far; \<open>continue\<close> leaves the operator as it is.
\<close>

definition two_band_h_int :: "real \<Rightarrow> real \<Rightarrow> many_body_op" where
  "two_band_h_int U J =
    (let f = two_band_fops;
         orbs = [0..<two_band_n_orbitals];
         h0 = Operator;
         h1 = fold (\<lambda>o' h.
                 op_add h (op_mul (op_scale U (n f (''up-'' @ fmt_i o') 0)) (n f (''down-'' @ fmt_i o') 0)))
                orbs h0;
         h2 = fold (\<lambda>(o1, o2) h. if o1 = o2 then h
                 else op_add h (op_mul (op_scale (U - 2 * J) (n f (''up-'' @ fmt_i o1) 0))
                                       (n f (''down-'' @ fmt_i o2) 0)))
                (product orbs orbs) h1;
         h3 = fold (\<lambda>(o1, o2) h. if o2 \<ge> o1 then h
                 else op_add
                        (op_add h (op_mul (op_scale (U - 3 * J) (n f (''up-'' @ fmt_i o1) 0))
                                          (n f (''up-'' @ fmt_i o2) 0)))
                        (op_mul (op_scale (U - 3 * J) (n f (''down-'' @ fmt_i o1) 0))
                                (n f (''down-'' @ fmt_i o2) 0)))
                (product orbs orbs) h2;
         h4 = fold (\<lambda>(o1, o2) h. if o1 = o2 then h
                 else op_add
                        (op_add h
                          (op_mul (op_mul (op_mul (op_scale (- J) (c_dag f (''up-'' @ fmt_i o1) 0))
                                                  (c_dag f (''down-'' @ fmt_i o1) 0))
                                          (c f (''up-'' @ fmt_i o2) 0))
                                  (c f (''down-'' @ fmt_i o2) 0)))
                        (op_mul (op_mul (op_mul (op_scale (- J) (c_dag f (''up-'' @ fmt_i o1) 0))
                                                (c_dag f (''down-'' @ fmt_i o2) 0))
                                        (c f (''up-'' @ fmt_i o2) 0))
                                (c f (''down-'' @ fmt_i o1) 0)))
                (product orbs orbs) h3
     in h4)"

text \<open>
  The Hubbard-Kanamori Hamiltonian as the notebook's text defines it, term by term:
  \<open>U \<Sum>i n(i,up) n(i,down) + (U-2J) \<Sum>i\<noteq>i' n(i,up) n(i',down)
   + (U-3J) \<Sum>i<i',\<sigma> n(i,\<sigma>) n(i',\<sigma>)
   - J \<Sum>i\<noteq>i' a_dag(i,up) a(i,down) a_dag(i',down) a(i',up)
   + J \<Sum>i\<noteq>i' a_dag(i,up) a_dag(i,down) a(i',down) a(i',up)\<close>,
  the orbitals \<open>i\<close>, \<open>i'\<close> ranging over \<open>0 .. n_orbitals - 1\<close>.
\<close>

definition op_sum :: "'a list \<Rightarrow> ('a \<Rightarrow> many_body_op) \<Rightarrow> many_body_op" where
  "op_sum xs f psi s = sum_list (map (\<lambda>x. f x psi s) xs)"

definition H_HK :: "real \<Rightarrow> real \<Rightarrow> many_body_op" where
  "H_HK U J =
     (let f = two_band_fops;
          orbs = [0..<two_band_n_orbitals];
          a = (\<lambda>\<sigma> i. c f (\<sigma> @ ''-'' @ fmt_i i) 0);
          a_dag = (\<lambda>\<sigma> i. c_dag f (\<sigma> @ ''-'' @ fmt_i i) 0);
          num = (\<lambda>\<sigma> i. op_mul (a_dag \<sigma> i) (a \<sigma> i));
          neq = filter (\<lambda>(i, i'). i \<noteq> i') (product orbs orbs);
          lt = filter (\<lambda>(i, i'). i < i') (product orbs orbs)
      in op_add (op_add (op_add (op_add
           (op_scale U (op_sum orbs (\<lambda>i. op_mul (num ''up'' i) (num ''down'' i))))
           (op_scale (U - 2 * J) (op_sum neq (\<lambda>(i, i'). op_mul (num ''up'' i) (num ''down'' i')))))
           (op_scale (U - 3 * J)
              (op_sum (product lt [''up'', ''down'']) (\<lambda>((i, i'), \<sigma>). op_mul (num \<sigma> i) (num \<sigma> i')))))
           (op_scale (- J) (op_sum neq (\<lambda>(i, i').
               op_mul (op_mul (op_mul (a_dag ''up'' i) (a ''down'' i)) (a_dag ''down'' i')) (a ''up'' i')))))
           (op_scale J (op_sum neq (\<lambda>(i, i').
               op_mul (op_mul (op_mul (a_dag ''up'' i) (a_dag ''down'' i)) (a ''down'' i')) (a ''up'' i')))))"

section \<open>Green's functions on the Matsubara axis and the impurity solver\<close>

text \<open>
  A block of a Matsubara Green's function with a 1x1 target is one complex number per
  Matsubara index; a block Green's function gives a block to every block name. The
  statements below are made per index, so the number of frequencies plays no role.
\<close>

type_synonym gf = "int \<Rightarrow> complex"
type_synonym block_gf = "string \<Rightarrow> gf"

text \<open>The descriptor \<open>iOmega_n\<close>: the fermionic Matsubara frequency \<open>i(2k+1)\<pi>/\<beta>\<close>.\<close>

definition iOmega_n :: "real \<Rightarrow> gf" where
  "iOmega_n beta k = Complex 0 ((2 * of_int k + 1) * pi / beta)"

text \<open>
  Modelled from the spec: the descriptor \<open>SemiCircular\<close> of the external framework, the
  Green's function of the semicircular density of states of half bandwidth \<open>D\<close>,
  \<open>2 (z - sqrt (z\<^sup>2 - D\<^sup>2)) / D\<^sup>2\<close> at \<open>z = i\<omega>\<close>, with the branch that decays as \<open>1/z\<close>.
\<close>

definition SemiCircular :: "real \<Rightarrow> real \<Rightarrow> gf" where
  "SemiCircular beta D k =
     (let w = (2 * of_int k + 1) * pi / beta
      in Complex 0 (2 * (w - sgn w * sqrt (w * w + D * D)) / (D * D)))"

text \<open>The solver object \<open>S\<close> with the three containers the scripts use.\<close>

record solver =
  G_iw :: block_gf
  G0_iw :: block_gf
  Sigma_iw :: block_gf

record solve_params =
  n_cycles :: nat
  length_cycle :: "nat option"
  n_warmup_cycles :: nat

text \<open>
  \<open>S.solve\<close> belongs to the external impurity solver and is a parameter of the
  scripts' model: from the local Hamiltonian, the sampling parameters and \<open>S.G0_iw\<close>
  it yields the new \<open>S.G_iw\<close> and \<open>S.Sigma_iw\<close>, or fails (\<open>None\<close>); nothing
  in the scripts catches a failure, which ends the run.
\<close>

type_synonym solve_fn =
  "many_body_op \<Rightarrow> solve_params \<Rightarrow> block_gf \<Rightarrow> (block_gf \<times> block_gf) option"

datatype h5file = one_band_file real | two_bands_file string real real

datatype out_line = print_U real | print_iteration nat nat | print_density string real

record script_state =
  S :: solver
  archives :: "h5file \<Rightarrow> (string \<rightharpoonup> block_gf)"
  printed :: "out_line list"

text \<open>The printed lines \<open>Iteration = i / n_loops\<close>, one at the start of every pass.\<close>

fun is_iteration_line :: "out_line \<Rightarrow> bool" where
  "is_iteration_line (print_iteration i m) = True"
| "is_iteration_line (print_U U) = False"
| "is_iteration_line (print_density b x) = False"

text \<open>A \<open>for\<close> loop whose body may fail: the first failure ends the loop.\<close>

fun for_each :: "('a \<Rightarrow> 's \<Rightarrow> 's option) \<Rightarrow> 'a list \<Rightarrow> 's \<Rightarrow> 's option" where
  "for_each body [] st = Some st"
| "for_each body (x # xs) st =
     (case body x st of None \<Rightarrow> None | Some st' \<Rightarrow> for_each body xs st')"

text \<open>\<open>B << f\<close> for a block Green's function \<open>B\<close>: every listed block is set to \<open>f\<close>.\<close>

definition assign_blocks :: "string list \<Rightarrow> gf \<Rightarrow> block_gf \<Rightarrow> block_gf" where
  "assign_blocks names f B = fold (\<lambda>name B'. B'(name := f)) names B"

section \<open>The single-orbital script\<close>

definition one_band_t :: real where
  "one_band_t = 1.0"

definition one_band_beta :: real where
  "one_band_beta = 10"

definition one_band_n_loops :: nat where
  "one_band_n_loops = 10"

definition one_band_gf_struct :: "(string \<times> nat) list" where
  "one_band_gf_struct = [(''up'', 1), (''down'', 1)]"

definition one_band_fops :: "op_index list" where
  "one_band_fops = map (\<lambda>(b, sz). (b, 0)) one_band_gf_struct"

definition one_band_h_int :: "real \<Rightarrow> many_body_op" where
  "one_band_h_int U = op_mul (op_scale U (n one_band_fops ''up'' 0)) (n one_band_fops ''down'' 0)"

text \<open>
  The lines
  \<^verbatim>\<open>g = 0.5 * ( S.G_iw['up'] + S.G_iw['down'] )\<close>,
  \<^verbatim>\<open>for name, g0 in S.G0_iw: g0 << inverse( iOmega_n + U/2.0 - t**2 * g )\<close>.
  The inverse of a 1x1 block is the reciprocal of its entry. Where the denominator
  vanishes the value \<open>0\<close> of \<open>inverse\<close> stands for a division by zero in the
  framework, and the equations proved below say nothing about the program there.
\<close>

definition one_band_self_consistency :: "real \<Rightarrow> solver \<Rightarrow> solver" where
  "one_band_self_consistency U slv =
     (let g = (\<lambda>k. 0.5 * (G_iw slv ''up'' k + G_iw slv ''down'' k))
      in slv\<lparr>G0_iw := assign_blocks (map fst one_band_gf_struct)
                (\<lambda>k. inverse (iOmega_n one_band_beta k + complex_of_real (U / 2.0)
                                - complex_of_real (one_band_t ^ 2) * g k))
                (G0_iw slv)\<rparr>)"

text \<open>One pass of the body of the loop \<open>for i in range(n_loops)\<close>.\<close>

definition one_band_iteration :: "solve_fn \<Rightarrow> real \<Rightarrow> nat \<Rightarrow> script_state \<Rightarrow> script_state option" where
  "one_band_iteration solve U i st =
     (let st1 = st\<lparr>printed := printed st @ [print_iteration (i + 1) one_band_n_loops]\<rparr>;
          S1 = one_band_self_consistency U (S st1)
      in case solve (one_band_h_int U)
                \<lparr>n_cycles = 10000, length_cycle = None, n_warmup_cycles = 5000\<rparr> (G0_iw S1) of
           None \<Rightarrow> None
         | Some (G, Sig) \<Rightarrow>
             (let S2 = S1\<lparr>G_iw := G, Sigma_iw := Sig\<rparr>;
                  A = archives st1 (one_band_file U);
                  A1 = A(''G-'' @ fmt_i i \<mapsto> G_iw S2);
                  A2 = A1(''Sigma-'' @ fmt_i i \<mapsto> Sigma_iw S2)
              in Some (st1\<lparr>S := S2, archives := (archives st1)(one_band_file U := A2)\<rparr>)))"

definition one_band_dmft_loop :: "solve_fn \<Rightarrow> real \<Rightarrow> script_state \<Rightarrow> script_state option" where
  "one_band_dmft_loop solve U st = for_each (one_band_iteration solve U) [0..<one_band_n_loops] st"

text \<open>The body of \<open>for U in np.arange(1.0, 13.0)\<close>: the first guess, then the loop.\<close>

definition one_band_for_U :: "solve_fn \<Rightarrow> real \<Rightarrow> script_state \<Rightarrow> script_state option" where
  "one_band_for_U solve U st =
     (let st1 = st\<lparr>printed := printed st @ [print_U U]\<rparr>;
          S1 = (S st1)\<lparr>G_iw := assign_blocks (map fst one_band_gf_struct)
                         (SemiCircular one_band_beta (2 * one_band_t)) (G_iw (S st1))\<rparr>
      in one_band_dmft_loop solve U (st1\<lparr>S := S1\<rparr>))"

definition one_band_script :: "solve_fn \<Rightarrow> script_state \<Rightarrow> script_state option" where
  "one_band_script solve st = for_each (one_band_for_U solve) (map real [1..<13]) st"

section \<open>The two-orbital script: the loop\<close>

definition two_band_t :: real where
  "two_band_t = 1.0"

definition two_band_beta :: real where
  "two_band_beta = 10.0"

definition two_band_n_loops :: nat where
  "two_band_n_loops = 10"

definition two_band_filling :: string where
  "two_band_filling = ''half''"

text \<open>
  The chemical potential for the two fillings; with any other value of \<open>filling\<close> the
  script leaves \<open>mu\<close> unbound and stops at its first use.
\<close>

definition two_band_mu :: "string \<Rightarrow> real \<Rightarrow> real \<Rightarrow> real \<Rightarrow> real option" where
  "two_band_mu filling coeff U J =
     (if filling = ''half'' then Some (0.5 * U + 0.5 * (U - 2 * J) + 0.5 * (U - 3 * J))
      else if filling = ''quarter'' then
        Some (- 0.81 + (0.6899 - 1.1099 * coeff) * U
              + (- 0.02548 + 0.02709 * coeff - 0.1606 * coeff ^ 2) * U ^ 2)
      else None)"

text \<open>
  The lines under \<^verbatim>\<open>if i > 0:\<close>,
  \<^verbatim>\<open>g = 0.25 * ( S.G_iw['up-0'] + S.G_iw['up-1'] + S.G_iw['down-0'] + S.G_iw['down-1'] )\<close>,
  \<^verbatim>\<open>for name, g0 in S.G0_iw: g0 << inverse(iOmega_n + mu - t**2 * g)\<close>.
\<close>

definition two_band_self_consistency :: "real \<Rightarrow> nat \<Rightarrow> solver \<Rightarrow> solver" where
  "two_band_self_consistency mu i slv =
     (if i > 0 then
        (let g = (\<lambda>k. 0.25 * (G_iw slv ''up-0'' k + G_iw slv ''up-1'' k
                              + G_iw slv ''down-0'' k + G_iw slv ''down-1'' k))
         in slv\<lparr>G0_iw := assign_blocks (map fst two_band_gf_struct)
                   (\<lambda>k. inverse (iOmega_n two_band_beta k + complex_of_real mu
                                   - complex_of_real (two_band_t ^ 2) * g k))
                   (G0_iw slv)\<rparr>)
      else slv)"

text \<open>
  One pass of the body of the loop; \<open>density\<close> is the framework's \<open>g.density()[0,0]\<close>,
  whose real part the script prints for every block.
\<close>

definition two_band_iteration ::
  "solve_fn \<Rightarrow> (gf \<Rightarrow> complex) \<Rightarrow> string \<Rightarrow> real \<Rightarrow> real \<Rightarrow> real \<Rightarrow> nat
     \<Rightarrow> script_state \<Rightarrow> script_state option" where
  "two_band_iteration solve density filling U J mu i st =
     (let st1 = st\<lparr>printed := printed st @ [print_iteration (i + 1) two_band_n_loops]\<rparr>;
          S1 = two_band_self_consistency mu i (S st1)
      in case solve (two_band_h_int U J)
                \<lparr>n_cycles = 30000, length_cycle = Some 100, n_warmup_cycles = 5000\<rparr> (G0_iw S1) of
           None \<Rightarrow> None
         | Some (G, Sig) \<Rightarrow>
             (let S2 = S1\<lparr>G_iw := G, Sigma_iw := Sig\<rparr>;
                  st2 = st1\<lparr>printed := printed st1
                          @ map (\<lambda>name. print_density name (Re (density (G_iw S2 name))))
                              (map fst two_band_gf_struct)\<rparr>;
                  A = archives st2 (two_bands_file filling U J);
                  A1 = A(''G-'' @ fmt_i i \<mapsto> G_iw S2);
                  A2 = A1(''Sigma-'' @ fmt_i i \<mapsto> Sigma_iw S2)
              in Some (st2\<lparr>S := S2,
                           archives := (archives st2)(two_bands_file filling U J := A2)\<rparr>)))"

definition two_band_dmft_loop ::
  "solve_fn \<Rightarrow> (gf \<Rightarrow> complex) \<Rightarrow> string \<Rightarrow> real \<Rightarrow> real \<Rightarrow> real
     \<Rightarrow> script_state \<Rightarrow> script_state option" where
  "two_band_dmft_loop solve density filling U J mu st =
     for_each (two_band_iteration solve density filling U J mu) [0..<two_band_n_loops] st"

text \<open>
  The first guess before the loop:
  \<^verbatim>\<open>S.G0_iw << inverse(iOmega_n + mu - t**2 * SemiCircular(2*t))\<close>.
\<close>

definition two_band_first_guess :: "real \<Rightarrow> solver \<Rightarrow> solver" where
  "two_band_first_guess mu slv =
     slv\<lparr>G0_iw := assign_blocks (map fst two_band_gf_struct)
            (\<lambda>k. inverse (iOmega_n two_band_beta k + complex_of_real mu
                            - complex_of_real (two_band_t ^ 2)
                              * SemiCircular two_band_beta (2 * two_band_t) k))
            (G0_iw slv)\<rparr>"

text \<open>The body of the loop over \<open>U\<close>, inside the loop over \<open>coeff\<close>.\<close>

definition two_band_for_U ::
  "solve_fn \<Rightarrow> (gf \<Rightarrow> complex) \<Rightarrow> string \<Rightarrow> real \<Rightarrow> real \<Rightarrow> script_state \<Rightarrow> script_state option" where
  "two_band_for_U solve density filling coeff U st =
     (let J = coeff * U
      in case two_band_mu filling coeff U J of
           None \<Rightarrow> None
         | Some mu \<Rightarrow>
             two_band_dmft_loop solve density filling U J mu
               (st\<lparr>S := two_band_first_guess mu (S st)\<rparr>))"

definition two_band_script ::
  "solve_fn \<Rightarrow> (gf \<Rightarrow> complex) \<Rightarrow> string \<Rightarrow> script_state \<Rightarrow> script_state option" where
  "two_band_script solve density filling st =
     for_each (\<lambda>coeff. for_each (two_band_for_U solve density filling coeff) (map real [1..<13]))
       [0.0, 0.1, 0.2] st"

section \<open>The IPT script\<close>

text \<open>
  The last loop of the single-orbital notebook runs the Bethe-lattice loop with the
  notebook's own second-order solver. The class \<open>IPTSolver\<close> holds one 1x1 Green's
  function per container, on the Matsubara mesh and on the imaginary-time mesh; its
  constructor creates them with the value zero.
\<close>

type_synonym gf_tau = "nat \<Rightarrow> complex"

record IPTSolver =
  ipt_beta :: real
  ipt_G_iw :: gf
  ipt_G0_iw :: gf
  ipt_Sigma_iw :: gf
  ipt_G0_tau :: gf_tau
  ipt_Sigma_tau :: gf_tau

definition IPTSolver_init :: "real \<Rightarrow> IPTSolver" where
  "IPTSolver_init beta =
     \<lparr>ipt_beta = beta, ipt_G_iw = (\<lambda>k. 0), ipt_G0_iw = (\<lambda>k. 0), ipt_Sigma_iw = (\<lambda>k. 0),
      ipt_G0_tau = (\<lambda>j. 0), ipt_Sigma_tau = (\<lambda>j. 0)\<rparr>"

text \<open>
  The method \<open>solve\<close>. The two uses of the framework's \<open>Fourier\<close> are parameters:
  \<open>Fourier_iw\<close> takes a function of the Matsubara frequencies to imaginary time,
  \<open>Fourier_tau\<close> takes it back.
\<close>

definition IPTSolver_solve ::
  "(gf \<Rightarrow> gf_tau) \<Rightarrow> (gf_tau \<Rightarrow> gf) \<Rightarrow> real \<Rightarrow> IPTSolver \<Rightarrow> IPTSolver" where
  "IPTSolver_solve Fourier_iw Fourier_tau U slv =
     (let s1 = slv\<lparr>ipt_G0_tau := Fourier_iw (ipt_G0_iw slv)\<rparr>;
          s2 = s1\<lparr>ipt_Sigma_tau :=
                 (\<lambda>j. complex_of_real (U ^ 2) * ipt_G0_tau s1 j * ipt_G0_tau s1 j * ipt_G0_tau s1 j)\<rparr>;
          s3 = s2\<lparr>ipt_Sigma_iw := Fourier_tau (ipt_Sigma_tau s2)\<rparr>
      in s3\<lparr>ipt_G_iw := (\<lambda>k. inverse (inverse (ipt_G0_iw s3 k) - ipt_Sigma_iw s3 k))\<rparr>)"

definition ipt_t :: real where
  "ipt_t = 1.0"

definition ipt_script_beta :: real where
  "ipt_script_beta = 10"

definition ipt_n_loops :: nat where
  "ipt_n_loops = 30"

text \<open>
  One pass of the body of \<open>for i in range(n_loops)\<close>:
  \<^verbatim>\<open>S.G0_iw << inverse( iOmega_n - t**2 * S.G_iw )\<close>, then \<^verbatim>\<open>S.solve(U = U)\<close>.
\<close>

definition ipt_iteration ::
  "(gf \<Rightarrow> gf_tau) \<Rightarrow> (gf_tau \<Rightarrow> gf) \<Rightarrow> real \<Rightarrow> nat \<Rightarrow> IPTSolver \<Rightarrow> IPTSolver" where
  "ipt_iteration Fourier_iw Fourier_tau U i slv =
     IPTSolver_solve Fourier_iw Fourier_tau U
       (slv\<lparr>ipt_G0_iw := (\<lambda>k. inverse (iOmega_n (ipt_beta slv) k
                                         - complex_of_real (ipt_t ^ 2) * ipt_G_iw slv k))\<rparr>)"

definition ipt_dmft_loop ::
  "(gf \<Rightarrow> gf_tau) \<Rightarrow> (gf_tau \<Rightarrow> gf) \<Rightarrow> real \<Rightarrow> IPTSolver \<Rightarrow> IPTSolver" where
  "ipt_dmft_loop Fourier_iw Fourier_tau U slv =
     fold (ipt_iteration Fourier_iw Fourier_tau U) [0..<ipt_n_loops] slv"

text \<open>
  The body of \<open>for U in np.arange(0.0, 12.0)\<close>: the first guess, the loop, and the
  quasiparticle weight \<open>Z = 1 / (1 - Im \<Sigma>(i\<omega>\<^sub>0) \<beta> / \<pi>)\<close>, appended to the two lists and
  printed; a vanishing denominator is Python's \<open>ZeroDivisionError\<close>.
\<close>

record ipt_script_state =
  ipt_S :: IPTSolver
  U_list2 :: "real list"
  Z_list2 :: "real list"
  ipt_printed :: "real list"

definition ipt_for_U ::
  "(gf \<Rightarrow> gf_tau) \<Rightarrow> (gf_tau \<Rightarrow> gf) \<Rightarrow> real \<Rightarrow> ipt_script_state \<Rightarrow> ipt_script_state option" where
  "ipt_for_U Fourier_iw Fourier_tau U st =
     (let S1 = (ipt_S st)\<lparr>ipt_G_iw := SemiCircular (ipt_beta (ipt_S st)) (2 * ipt_t)\<rparr>;
          S2 = ipt_dmft_loop Fourier_iw Fourier_tau U S1;
          d = 1 - Im (ipt_Sigma_iw S2 0) * ipt_script_beta / pi
      in if d = 0 then None
         else Some (st\<lparr>ipt_S := S2, U_list2 := U_list2 st @ [U], Z_list2 := Z_list2 st @ [1 / d],
                       ipt_printed := ipt_printed st @ [1 / d]\<rparr>))"

definition ipt_script :: "(gf \<Rightarrow> gf_tau) \<Rightarrow> (gf_tau \<Rightarrow> gf) \<Rightarrow> ipt_script_state option" where
  "ipt_script Fourier_iw Fourier_tau =
     for_each (ipt_for_U Fourier_iw Fourier_tau) (map real [0..<12])
       \<lparr>ipt_S = IPTSolver_init ipt_script_beta, U_list2 = [], Z_list2 = [], ipt_printed = []\<rparr>"

section \<open>Green's functions of several variables\<close>

datatype statistic = Boson | Fermion

text \<open>
  The imaginary-time mesh \<open>gf_mesh<imtime>{beta, statistic, n}\<close>: \<open>n\<close> points
  \<open>\<tau>\<^sub>i = i \<beta> / (n - 1)\<close> from \<open>0\<close> to \<open>\<beta>\<close>.
\<close>

record imtime_mesh =
  mesh_beta :: real
  mesh_statistic :: statistic
  mesh_size :: nat

definition imtime_points :: "imtime_mesh \<Rightarrow> nat list" where
  "imtime_points m = [0..<mesh_size m]"

definition imtime_value :: "imtime_mesh \<Rightarrow> nat \<Rightarrow> real" where
  "imtime_value m i = real i * (mesh_beta m / real (mesh_size m - 1))"

text \<open>
  The real-space mesh of a periodic lattice with \<open>L1 \<times> L2 \<times> L3\<close> sites: its points
  are the index triples \<open>0 \<le> i\<^sub>j < L\<^sub>j\<close>, the last index running fastest, and any
  integer triple stands for the mesh point it is congruent to.
\<close>

type_synonym lattice_point = "int \<times> int \<times> int"

definition cyclat_points :: "nat \<times> nat \<times> nat \<Rightarrow> lattice_point list" where
  "cyclat_points L =
     (case L of (L1, L2, L3) \<Rightarrow>
        concat (map (\<lambda>i1. concat (map (\<lambda>i2. map (\<lambda>i3. (int i1, int i2, int i3)) [0..<L3]) [0..<L2]))
                 [0..<L1]))"

definition cyclat_wrap :: "nat \<times> nat \<times> nat \<Rightarrow> lattice_point \<Rightarrow> lattice_point" where
  "cyclat_wrap L r =
     (case (L, r) of ((L1, L2, L3), (i1, i2, i3)) \<Rightarrow> (i1 mod int L1, i2 mod int L2, i3 mod int L3))"

text \<open>The point \<open>-r\<close>.\<close>

definition neg_point :: "lattice_point \<Rightarrow> lattice_point" where
  "neg_point r = (case r of (i1, i2, i3) \<Rightarrow> (- i1, - i2, - i3))"

text \<open>The type \<open>g_r_t_t\<close>: a scalar function on the product of the two meshes.\<close>

record g_r_t =
  mesh_r :: "nat \<times> nat \<times> nat"
  mesh_t :: imtime_mesh
  data_r_t :: "lattice_point \<Rightarrow> nat \<Rightarrow> complex"

text \<open>
  Modelled from the spec: the call operator of the external framework on an
  imaginary-time mesh, which is not in the repository. A time \<open>0 \<le> \<tau> \<le> \<beta>\<close> is
  evaluated by linear interpolation between the two mesh points around it; a time
  outside the mesh's domain, or a mesh of fewer than two points, is an error.
\<close>

definition imtime_interpolate :: "imtime_mesh \<Rightarrow> (nat \<Rightarrow> complex) \<Rightarrow> real \<Rightarrow> complex option" where
  "imtime_interpolate m f tau =
     (if mesh_size m < 2 \<or> mesh_beta m \<le> 0 \<or> tau < 0 \<or> mesh_beta m < tau then None
      else
        (let a = tau / (mesh_beta m / real (mesh_size m - 1));
             i = min (nat \<lfloor>a\<rfloor>) (mesh_size m - 2);
             w = a - real i
         in Some (complex_of_real (1 - w) * f i + complex_of_real w * f (i + 1))))"

text \<open>
  Modelled from the spec: the call \<open>g(r, tau)\<close> of the external framework on the
  product mesh. The lattice argument is taken modulo the lattice (mesh wraparound), the
  time argument is interpolated.
\<close>

definition evaluate_r_t :: "g_r_t \<Rightarrow> lattice_point \<Rightarrow> real \<Rightarrow> complex option" where
  "evaluate_r_t g r tau = imtime_interpolate (mesh_t g) (data_r_t g (cyclat_wrap (mesh_r g) r)) tau"

section \<open>The bubble\<close>

text \<open>
  The body of the double loop of \<open>bubble\<close>,
  \<^verbatim>\<open>chi0[r, t] = 2*grt(-r, beta - t) * grt(r, t)\<close>,
  for the mesh point \<open>r\<close> of \<open>mr\<close> and the mesh point \<open>t\<close> of \<open>mtb\<close>.
\<close>

definition bubble_point ::
  "g_r_t \<Rightarrow> imtime_mesh \<Rightarrow> lattice_point \<Rightarrow> nat
    \<Rightarrow> (lattice_point \<Rightarrow> nat \<Rightarrow> complex) \<Rightarrow> (lattice_point \<Rightarrow> nat \<Rightarrow> complex) option" where
  "bubble_point grt mtb r t chi =
     (let beta = mesh_beta (mesh_t grt)
      in case evaluate_r_t grt (neg_point r) (beta - imtime_value mtb t) of
           None \<Rightarrow> None
         | Some x \<Rightarrow>
             (case evaluate_r_t grt r (imtime_value mtb t) of
                None \<Rightarrow> None
              | Some y \<Rightarrow> Some (chi(r := (chi r)(t := 2 * x * y)))))"

text \<open>
  \<open>bubble\<close> between its two Fourier transforms: from \<open>grt\<close>, the transform of the
  input, to \<open>chi0\<close> on the mesh \<open>{mr, mtb}\<close>, created with the value zero everywhere
  and filled by the loops \<open>for r in mr\<close>, \<open>for t in mtb\<close>.
\<close>

definition bubble_chi0 :: "g_r_t \<Rightarrow> g_r_t option" where
  "bubble_chi0 grt =
     (let mr = mesh_r grt;
          mt = mesh_t grt;
          beta = mesh_beta mt;
          mtb = \<lparr>mesh_beta = beta, mesh_statistic = Boson, mesh_size = mesh_size mt\<rparr>;
          chi0 = \<lparr>mesh_r = mr, mesh_t = mtb, data_r_t = (\<lambda>r t. 0)\<rparr>
      in case for_each (\<lambda>r. for_each (bubble_point grt mtb r) (imtime_points mtb))
                (cyclat_points mr) (data_r_t chi0) of
           None \<Rightarrow> None
         | Some d \<Rightarrow> Some (chi0\<lparr>data_r_t := d\<rparr>))"

text \<open>
  The two calls of \<open>make_gf_from_fourier<0,1>\<close> belong to the external framework and
  are parameters: \<open>fourier_k_w\<close> takes the input to real space and imaginary time,
  \<open>fourier_r_t\<close> takes \<open>chi0\<close> back.
\<close>

definition bubble :: "('gkw \<Rightarrow> g_r_t) \<Rightarrow> (g_r_t \<Rightarrow> 'gqw) \<Rightarrow> 'gkw \<Rightarrow> 'gqw option" where
  "bubble fourier_k_w fourier_r_t G0 =
     (case bubble_chi0 (fourier_k_w G0) of None \<Rightarrow> None | Some chi0 \<Rightarrow> Some (fourier_r_t chi0))"

section \<open>Evaluation of a lattice Green's function\<close>








section \<open>Inputs for the examples\<close>

text \<open>
  A solver whose containers are all zero, the state of a script before anything ran, a
  solver that returns the Weiss field it was given as both Green's function and
  self-energy, a state whose blocks differ from each other, and the state in which the
  two-orbital script enters its loop for \<open>coeff = 0.0\<close>, \<open>U = 1.0\<close> (\<open>\<mu> = 1.5\<close>)
  from the zero solver.
\<close>

definition solver_zero :: solver where
  "solver_zero = \<lparr>G_iw = (\<lambda>b k. 0), G0_iw = (\<lambda>b k. 0), Sigma_iw = (\<lambda>b k. 0)\<rparr>"

definition state_zero :: script_state where
  "state_zero = \<lparr>S = solver_zero, archives = (\<lambda>f. Map.empty), printed = []\<rparr>"

definition solve_echo :: solve_fn where
  "solve_echo h p B = Some (B, B)"

definition solver_asym :: solver where
  "solver_asym = \<lparr>G_iw = (\<lambda>b k. if b = ''up'' then 1 else 3),
                   G0_iw = (\<lambda>b k. if b = ''up'' then 5 else 7), Sigma_iw = (\<lambda>b k. 0)\<rparr>"

definition state_asym :: script_state where
  "state_asym = \<lparr>S = solver_asym, archives = (\<lambda>f. Map.empty), printed = []\<rparr>"

definition two_band_entry_state :: script_state where
  "two_band_entry_state = state_zero\<lparr>S := two_band_first_guess (3 / 2) solver_zero\<rparr>"

text \<open>
  A function on a lattice of 3 x 2 x 1 sites and three imaginary times, and a function
  on a mesh of 2 x 2 x 1 momenta and the fermionic frequencies \<open>-4 \<le> k < 4\<close>.
\<close>

definition toy_grt :: g_r_t where
  "toy_grt = \<lparr>mesh_r = (3, 2, 1),
              mesh_t = \<lparr>mesh_beta = 2, mesh_statistic = Fermion, mesh_size = 3\<rparr>,
              data_r_t = (\<lambda>r t. case r of (i1, i2, i3) \<Rightarrow>
                 Complex (of_int (1 + i1 + 3 * i2)) (real t))\<rparr>"


text \<open>
  A solver whose output differs between the blocks, so that every pass has something
  to symmetrize, and two stand-ins for the Fourier transforms of the IPT solver.
\<close>

definition solve_skew :: solve_fn where
  "solve_skew h p B = Some ((\<lambda>b k. B b k + (if b = ''up'' then 1 else 3)), B)"

definition toy_Fourier_iw :: "gf \<Rightarrow> gf_tau" where
  "toy_Fourier_iw g j = g (int j)"

definition toy_Fourier_tau :: "gf_tau \<Rightarrow> gf" where
  "toy_Fourier_tau h k = h (nat \<bar>k\<bar>)"

section \<open>Properties of the operators\<close>

lemma upt_two: "[0..<2] = [0, Suc 0]"
  by (simp add: upt_rec)

lemma fmt_i_0: "fmt_i 0 = ''0''"
  by (simp add: fmt_i.simps)

lemma fmt_i_1: "fmt_i (Suc 0) = ''1''"
  by (simp add: fmt_i.simps)

lemma two_band_pos:
  "fop_pos two_band_fops (''up-0'', 0) = 0"
  "fop_pos two_band_fops (''up-1'', 0) = 1"
  "fop_pos two_band_fops (''down-0'', 0) = 2"
  "fop_pos two_band_fops (''down-1'', 0) = 3"
  by (simp_all add: fop_pos_def two_band_fops_def two_band_gf_struct_def)

lemma two_band_h_int_expand:
  "two_band_h_int U J =
     (let nu0 = op_mul (c_dag_at 0) (c_at 0); nu1 = op_mul (c_dag_at 1) (c_at 1);
          nd0 = op_mul (c_dag_at 2) (c_at 2); nd1 = op_mul (c_dag_at 3) (c_at 3)
      in op_add (op_add (op_add (op_add (op_add (op_add (op_add (op_add (op_add (op_add
           Operator
           (op_mul (op_scale U nu0) nd0))
           (op_mul (op_scale U nu1) nd1))
           (op_mul (op_scale (U - 2 * J) nu0) nd1))
           (op_mul (op_scale (U - 2 * J) nu1) nd0))
           (op_mul (op_scale (U - 3 * J) nu1) nu0))
           (op_mul (op_scale (U - 3 * J) nd1) nd0))
           (op_mul (op_mul (op_mul (op_scale (- J) (c_dag_at 0)) (c_dag_at 2)) (c_at 1)) (c_at 3)))
           (op_mul (op_mul (op_mul (op_scale (- J) (c_dag_at 0)) (c_dag_at 3)) (c_at 1)) (c_at 2)))
           (op_mul (op_mul (op_mul (op_scale (- J) (c_dag_at 1)) (c_dag_at 3)) (c_at 0)) (c_at 2)))
           (op_mul (op_mul (op_mul (op_scale (- J) (c_dag_at 1)) (c_dag_at 2)) (c_at 0)) (c_at 3)))"
  by (simp add: two_band_h_int_def Let_def two_band_n_orbitals_def upt_two product_def
      fmt_i_0 fmt_i_1 n_def c_def c_dag_def two_band_pos)


lemma H_HK_expand:
  "H_HK U J =
     (let nu0 = op_mul (c_dag_at 0) (c_at 0); nu1 = op_mul (c_dag_at 1) (c_at 1);
          nd0 = op_mul (c_dag_at 2) (c_at 2); nd1 = op_mul (c_dag_at 3) (c_at 3)
      in op_add (op_add (op_add (op_add
           (op_scale U (op_sum [0, Suc 0]
              (\<lambda>i. if i = 0 then op_mul nu0 nd0 else op_mul nu1 nd1)))
           (op_scale (U - 2 * J) (op_sum [(0, Suc 0), (Suc 0, 0)]
              (\<lambda>(i, i'). if i = 0 then op_mul nu0 nd1 else op_mul nu1 nd0))))
           (op_scale (U - 3 * J) (op_sum [((0, Suc 0), ''up''), ((0, Suc 0), ''down'')]
              (\<lambda>((i, i'), \<sigma>). if \<sigma> = ''up'' then op_mul nu0 nu1 else op_mul nd0 nd1))))
           (op_scale (- J) (op_sum [(0, Suc 0), (Suc 0, 0)]
              (\<lambda>(i, i'). if i = 0
                 then op_mul (op_mul (op_mul (c_dag_at 0) (c_at 2)) (c_dag_at 3)) (c_at 1)
                 else op_mul (op_mul (op_mul (c_dag_at 1) (c_at 3)) (c_dag_at 2)) (c_at 0)))))
           (op_scale J (op_sum [(0, Suc 0), (Suc 0, 0)]
              (\<lambda>(i, i'). if i = 0
                 then op_mul (op_mul (op_mul (c_dag_at 0) (c_dag_at 2)) (c_at 3)) (c_at 1)
                 else op_mul (op_mul (op_mul (c_dag_at 1) (c_dag_at 3)) (c_at 2)) (c_at 0)))))"
  by (rule ext, rule ext)
     (simp add: H_HK_def Let_def two_band_n_orbitals_def upt_two product_def
      fmt_i_0 fmt_i_1 c_def c_dag_def two_band_pos op_add_def op_scale_def op_sum_def)

lemmas fock_defs = op_add_def op_mul_def op_scale_def op_sum_def Operator_def
  c_at_def c_dag_at_def jw_sign_def

lemma fock_four: "length (s :: fock) = 4 \<Longrightarrow> \<exists>a b c' d. s = [a, b, c', d]"
  by (cases s; simp; rename_tac s1; case_tac s1; simp; rename_tac s2; case_tac s2; simp;
      rename_tac s3; case_tac s3; simp)

text \<open>
  On the Fock space of four flavours the operators obey the canonical anticommutation
  relations, which fixes the signs used above.
\<close>

lemma below_four: "(i::nat) < 4 \<Longrightarrow> i = 0 \<or> i = 1 \<or> i = 2 \<or> i = 3"
  by arith

lemma fock_anticommutation:
  assumes "i < 4" "j < 4"
  shows "op_add (op_mul (c_at i) (c_dag_at j)) (op_mul (c_dag_at j) (c_at i)) psi [a, b, c', d]
           = (if i = j then psi [a, b, c', d] else 0)"
    and "op_add (op_mul (c_at i) (c_at j)) (op_mul (c_at j) (c_at i)) psi [a, b, c', d] = 0"
    and "op_add (op_mul (c_dag_at i) (c_dag_at j)) (op_mul (c_dag_at j) (c_dag_at i)) psi [a, b, c', d] = 0"
  using below_four [OF assms(1)] below_four [OF assms(2)]
  by (elim disjE; hypsubst; cases a; cases b; cases c'; cases d; simp add: fock_defs)+

lemma kanamori_basis:
  "two_band_h_int U J psi [a, b, c', d] = H_HK U J psi [a, b, c', d]"
  apply (subst H_HK_expand)
  apply (subst two_band_h_int_expand)
  apply (cases a; cases b; cases c'; cases d)
  apply (simp_all add: Let_def fock_defs)
  done

text \<open>
  C8. For \<open>n_orbitals = 2\<close> the operator \<open>h_int\<close> that the two-orbital script builds
  is the Hubbard-Kanamori Hamiltonian \<open>H_HK\<close> of the notebook: on the Fock space of
  the four flavours both give every wave function the same image.
\<close>

theorem two_band_h_int_is_H_HK:
  "length s = 2 * two_band_n_orbitals \<Longrightarrow> two_band_h_int U J psi s = H_HK U J psi s"
proof -
  assume "length s = 2 * two_band_n_orbitals"
  then have "length s = 4" by (simp add: two_band_n_orbitals_def)
  then obtain a b c' d where "s = [a, b, c', d]" using fock_four by blast
  then show ?thesis by (simp add: kanamori_basis)
qed

theorem two_band_h_int_is_H_HK_witness:
  "length [True, False, False, True] = 2 * two_band_n_orbitals
   \<and> two_band_h_int 4 1 (\<lambda>s. if s = [False, True, True, False] then 1 else 0)
        [True, False, False, True] = 1
   \<and> H_HK 4 1 (\<lambda>s. if s = [False, True, True, False] then 1 else 0)
        [True, False, False, True] = 1"
proof -
  have len: "length [True, False, False, True] = 2 * two_band_n_orbitals"
    by (simp add: two_band_n_orbitals_def)
  have v: "two_band_h_int 4 1 (\<lambda>s. if s = [False, True, True, False] then 1 else 0)
        [True, False, False, True] = 1"
    by (subst two_band_h_int_expand) (simp add: Let_def fock_defs)
  show ?thesis
    using len v two_band_h_int_is_H_HK [OF len, of 4 1 "\<lambda>s. if s = [False, True, True, False] then 1 else 0"]
    by simp
qed

section \<open>Properties of the loops\<close>

lemma assign_blocks_apply:
  "assign_blocks names f B b = (if b \<in> set names then f else B b)"
  unfolding assign_blocks_def
  by (induction names arbitrary: B) auto

lemma for_each_append:
  "for_each body (xs @ ys) st =
     (case for_each body xs st of None \<Rightarrow> None | Some st1 \<Rightarrow> for_each body ys st1)"
  by (induction xs arbitrary: st) (auto split: option.splits)

lemma for_each_snoc:
  "for_each body (xs @ [x]) st =
     (case for_each body xs st of None \<Rightarrow> None | Some st1 \<Rightarrow> body x st1)"
  by (simp add: for_each_append split: option.splits)

lemma for_each_total:
  "(\<And>x st1. body x st1 \<noteq> None) \<Longrightarrow> for_each body xs st \<noteq> None"
  by (induction xs arbitrary: st) (auto split: option.splits)

lemma solve_echo_total: "\<forall>h p B. solve_echo h p B \<noteq> None"
  by (simp add: solve_echo_def)

lemma solve_skew_total: "\<forall>h p B. solve_skew h p B \<noteq> None"
  by (simp add: solve_skew_def)

lemma for_each_chain:
  "for_each body [0..<m] st = Some st' \<Longrightarrow>
     \<exists>sts. sts 0 = st \<and> sts m = st' \<and> (\<forall>i<m. body i (sts i) = Some (sts (Suc i)))"
proof (induction m arbitrary: st')
  case 0
  then show ?case by (intro exI [where x = "\<lambda>i. st"]) simp
next
  case (Suc m)
  then obtain st1 where p: "for_each body [0..<m] st = Some st1" and l: "body m st1 = Some st'"
    by (auto simp: for_each_snoc split: option.splits)
  from Suc.IH [OF p] obtain sts where
    s: "sts 0 = st" "sts m = st1" "\<forall>i<m. body i (sts i) = Some (sts (Suc i))"
    by blast
  show ?case
  proof (intro exI [where x = "sts(Suc m := st')"] conjI allI impI)
    show "(sts(Suc m := st')) 0 = st" using s(1) by simp
    show "(sts(Suc m := st')) (Suc m) = st'" by simp
    fix i assume "i < Suc m"
    then show "body i ((sts(Suc m := st')) i) = Some ((sts(Suc m := st')) (Suc i))"
      using s(2,3) l by (cases "i = m") auto
  qed
qed

text \<open>
  The archive keys \<open>G-i\<close> and \<open>Sigma-i\<close> of the passes \<open>i < 10\<close> are pairwise
  different, so what a pass writes is still there when the loop ends.
\<close>

lemma below_ten:
  "(i::nat) < 10 \<Longrightarrow> i = 0 \<or> i = 1 \<or> i = 2 \<or> i = 3 \<or> i = 4 \<or> i = 5 \<or> i = 6 \<or> i = 7 \<or> i = 8 \<or> i = 9"
  by arith

lemma digit_char_code: "i < 10 \<Longrightarrow> of_char (digit_char i) = (48 + i :: nat)"
  by (drule below_ten) (elim disjE; simp)

lemma fmt_i_digit: "i < 10 \<Longrightarrow> fmt_i i = [digit_char i]"
  by (simp add: fmt_i.simps)

lemma fmt_i_inj_digit:
  assumes "i < 10" "j < 10" "fmt_i i = fmt_i j"
  shows "i = j"
proof -
  have "digit_char i = digit_char j"
    using assms by (simp add: fmt_i_digit del: digit_char.simps)
  then have "(of_char (digit_char i) :: nat) = of_char (digit_char j)"
    by (simp del: digit_char.simps)
  then show ?thesis
    using assms(1,2) by (simp add: digit_char_code del: digit_char.simps)
qed

lemma fmt_i_9: "fmt_i 9 = ''9''"
  by (simp add: fmt_i.simps)

lemma key_ten_fresh:
  "\<forall>i<10. ''G-10'' \<noteq> ''G-'' @ fmt_i i \<and> ''G-10'' \<noteq> ''Sigma-'' @ fmt_i i"
  by (simp add: fmt_i_digit del: digit_char.simps)

lemma archive_writes:
  fixes A :: "nat \<Rightarrow> 'f \<Rightarrow> (string \<rightharpoonup> 'v)"
  assumes "\<forall>i<m. A (Suc i) = (A i)(f := (A i f)(''G-'' @ fmt_i i \<mapsto> g i, ''Sigma-'' @ fmt_i i \<mapsto> s i))"
    and "m \<le> 10"
  shows "(\<forall>i<m. A m f (''G-'' @ fmt_i i) = Some (g i) \<and> A m f (''Sigma-'' @ fmt_i i) = Some (s i))
       \<and> (\<forall>key. (\<forall>i<m. key \<noteq> ''G-'' @ fmt_i i \<and> key \<noteq> ''Sigma-'' @ fmt_i i) \<longrightarrow> A m f key = A 0 f key)
       \<and> (\<forall>f'. f' \<noteq> f \<longrightarrow> A m f' = A 0 f')"
  using assms
proof (induction m)
  case 0
  then show ?case by simp
next
  case (Suc m)
  have prem: "\<forall>i<m. A (Suc i) = (A i)(f := (A i f)(''G-'' @ fmt_i i \<mapsto> g i, ''Sigma-'' @ fmt_i i \<mapsto> s i))"
    using Suc.prems(1) less_SucI by blast
  have "m \<le> 10" using Suc.prems(2) by simp
  from Suc.IH [OF prem this] have IH: "(\<forall>i<m. A m f (''G-'' @ fmt_i i) = Some (g i) \<and> A m f (''Sigma-'' @ fmt_i i) = Some (s i))"
    "(\<forall>key. (\<forall>i<m. key \<noteq> ''G-'' @ fmt_i i \<and> key \<noteq> ''Sigma-'' @ fmt_i i) \<longrightarrow> A m f key = A 0 f key)"
    "(\<forall>f'. f' \<noteq> f \<longrightarrow> A m f' = A 0 f')"
    by blast+
  have step: "A (Suc m) = (A m)(f := (A m f)(''G-'' @ fmt_i m \<mapsto> g m, ''Sigma-'' @ fmt_i m \<mapsto> s m))"
    using Suc.prems(1) by blast
  have m: "m < 10" using Suc.prems(2) by simp
  have old: "fmt_i i \<noteq> fmt_i m" if "i < m" for i
    using that m fmt_i_inj_digit [of i m] by auto
  show ?case
  proof (intro conjI allI impI)
    fix i assume "i < Suc m"
    then show "A (Suc m) f (''G-'' @ fmt_i i) = Some (g i)"
      using IH(1) old by (cases "i = m") (simp_all add: step)
  next
    fix i assume "i < Suc m"
    then show "A (Suc m) f (''Sigma-'' @ fmt_i i) = Some (s i)"
      using IH(1) old by (cases "i = m") (simp_all add: step)
  next
    fix key assume "\<forall>i<Suc m. key \<noteq> ''G-'' @ fmt_i i \<and> key \<noteq> ''Sigma-'' @ fmt_i i"
    then show "A (Suc m) f key = A 0 f key"
      using IH(2) by (simp add: step)
  next
    fix f' assume "f' \<noteq> f"
    then show "A (Suc m) f' = A 0 f'"
      using IH(3) by (simp add: step)
  qed
qed

subsection \<open>The single-orbital iteration\<close>

lemma one_band_iteration_G0:
  "one_band_iteration solve U i st = Some st' \<Longrightarrow>
     G0_iw (S st') = G0_iw (one_band_self_consistency U (S st))"
  by (auto simp: one_band_iteration_def Let_def split: option.splits)

lemma one_band_iteration_printed:
  "one_band_iteration solve U i st = Some st' \<Longrightarrow>
     printed st' = printed st @ [print_iteration (i + 1) one_band_n_loops]"
  by (auto simp: one_band_iteration_def Let_def split: option.splits)

lemma one_band_iteration_total:
  "(\<And>h p B. solve h p B \<noteq> None) \<Longrightarrow> one_band_iteration solve U i st \<noteq> None"
  by (auto simp: one_band_iteration_def Let_def split: option.splits)

lemma one_band_self_consistency_G0:
  "G0_iw (one_band_self_consistency U slv) b k =
     (if b = ''up'' \<or> b = ''down''
      then inverse (iOmega_n one_band_beta k + complex_of_real (U / 2)
                    - complex_of_real (one_band_t ^ 2)
                      * (0.5 * (G_iw slv ''up'' k + G_iw slv ''down'' k)))
      else G0_iw slv b k)"
  by (simp add: one_band_self_consistency_def Let_def assign_blocks_apply one_band_gf_struct_def)

lemma one_band_loop_printed:
  "for_each (one_band_iteration solve U) js st = Some st' \<Longrightarrow>
     printed st' = printed st @ map (\<lambda>i. print_iteration (i + 1) one_band_n_loops) js"
proof (induction js arbitrary: st)
  case Nil
  then show ?case by simp
next
  case (Cons j js)
  then obtain st1 where a: "one_band_iteration solve U j st = Some st1"
    and b: "for_each (one_band_iteration solve U) js st1 = Some st'"
    by (auto split: option.splits)
  show ?case
    using Cons.IH [OF b] one_band_iteration_printed [OF a] by simp
qed

lemma one_band_iteration_step:
  assumes "one_band_iteration solve U i st = Some st'"
  shows "solve (one_band_h_int U) \<lparr>n_cycles = 10000, length_cycle = None, n_warmup_cycles = 5000\<rparr>
           (G0_iw (S st')) = Some (G_iw (S st'), Sigma_iw (S st'))"
    and "G0_iw (S st') = G0_iw (one_band_self_consistency U (S st))"
    and "archives st' = (archives st)(one_band_file U :=
           (archives st (one_band_file U))(''G-'' @ fmt_i i \<mapsto> G_iw (S st'),
                                            ''Sigma-'' @ fmt_i i \<mapsto> Sigma_iw (S st')))"
  using assms
  by (auto simp: one_band_iteration_def Let_def split: option.splits)

lemma one_band_loop_passes:
  assumes "one_band_dmft_loop solve U st = Some st1"
  shows "\<exists>Gs Sigs W.
      Gs 0 = G_iw (S st) \<and> W 0 = G0_iw (S st)
    \<and> (\<forall>i<10.
          (\<forall>b k. W (Suc i) b k =
             (if b = ''up'' \<or> b = ''down''
              then inverse (iOmega_n one_band_beta k + complex_of_real (U / 2)
                            - complex_of_real (one_band_t ^ 2)
                              * (0.5 * (Gs i ''up'' k + Gs i ''down'' k)))
              else W i b k))
        \<and> solve (one_band_h_int U)
              \<lparr>n_cycles = 10000, length_cycle = None, n_warmup_cycles = 5000\<rparr> (W (Suc i))
            = Some (Gs (Suc i), Sigs (Suc i))
        \<and> archives st1 (one_band_file U) (''G-'' @ fmt_i i) = Some (Gs (Suc i))
        \<and> archives st1 (one_band_file U) (''Sigma-'' @ fmt_i i) = Some (Sigs (Suc i)))
    \<and> G_iw (S st1) = Gs 10 \<and> G0_iw (S st1) = W 10 \<and> Sigma_iw (S st1) = Sigs 10
    \<and> (\<forall>key. (\<forall>i<10. key \<noteq> ''G-'' @ fmt_i i \<and> key \<noteq> ''Sigma-'' @ fmt_i i) \<longrightarrow>
          archives st1 (one_band_file U) key = archives st (one_band_file U) key)
    \<and> (\<forall>f. f \<noteq> one_band_file U \<longrightarrow> archives st1 f = archives st f)"
proof -
  from assms have "for_each (one_band_iteration solve U) [0..<10] st = Some st1"
    by (simp add: one_band_dmft_loop_def one_band_n_loops_def)
  from for_each_chain [OF this] obtain sts where
    s0: "sts 0 = st" and s10: "sts 10 = st1"
    and ch: "\<forall>i<10. one_band_iteration solve U i (sts i) = Some (sts (Suc i))"
    by blast
  have wr: "\<forall>i<10. archives (sts (Suc i)) = (archives (sts i))(one_band_file U :=
           (archives (sts i) (one_band_file U))(''G-'' @ fmt_i i \<mapsto> G_iw (S (sts (Suc i))),
                                                ''Sigma-'' @ fmt_i i \<mapsto> Sigma_iw (S (sts (Suc i)))))"
    using ch one_band_iteration_step(3) by blast
  note aw = archive_writes [where A = "\<lambda>i. archives (sts i)" and m = 10, OF wr, simplified s0 s10]
  show ?thesis
    apply (rule exI [where x = "\<lambda>i. G_iw (S (sts i))"])
    apply (rule exI [where x = "\<lambda>i. Sigma_iw (S (sts i))"])
    apply (rule exI [where x = "\<lambda>i. G0_iw (S (sts i))"])
  proof (intro conjI allI impI)
    show "G_iw (S (sts 0)) = G_iw (S st)" "G0_iw (S (sts 0)) = G0_iw (S st)"
      by (simp_all add: s0)
    show "G_iw (S st1) = G_iw (S (sts 10))" "G0_iw (S st1) = G0_iw (S (sts 10))"
      "Sigma_iw (S st1) = Sigma_iw (S (sts 10))"
      by (simp_all add: s10)
  next
    fix i :: nat and b k assume i: "i < 10"
    then have "G0_iw (S (sts (Suc i))) = G0_iw (one_band_self_consistency U (S (sts i)))"
      using ch one_band_iteration_step(2) by blast
    then show "G0_iw (S (sts (Suc i))) b k =
             (if b = ''up'' \<or> b = ''down''
              then inverse (iOmega_n one_band_beta k + complex_of_real (U / 2)
                            - complex_of_real (one_band_t ^ 2)
                              * (0.5 * (G_iw (S (sts i)) ''up'' k + G_iw (S (sts i)) ''down'' k)))
              else G0_iw (S (sts i)) b k)"
      by (simp add: one_band_self_consistency_G0)
  next
    fix i :: nat assume i: "i < 10"
    then show "solve (one_band_h_int U)
              \<lparr>n_cycles = 10000, length_cycle = None, n_warmup_cycles = 5000\<rparr> (G0_iw (S (sts (Suc i))))
            = Some (G_iw (S (sts (Suc i))), Sigma_iw (S (sts (Suc i))))"
      using ch one_band_iteration_step(1) by blast
    from i show "archives st1 (one_band_file U) (''G-'' @ fmt_i i) = Some (G_iw (S (sts (Suc i))))"
      using aw by blast
    from i show "archives st1 (one_band_file U) (''Sigma-'' @ fmt_i i) = Some (Sigma_iw (S (sts (Suc i))))"
      using aw by blast
  next
    fix key assume "\<forall>i<10. key \<noteq> ''G-'' @ fmt_i i \<and> key \<noteq> ''Sigma-'' @ fmt_i i"
    then show "archives st1 (one_band_file U) key = archives st (one_band_file U) key"
      using aw by blast
  next
    fix f assume "f \<noteq> one_band_file U"
    then show "archives st1 f = archives st f"
      using aw by blast
  qed
qed

subsection \<open>The two-orbital iteration\<close>

lemma two_band_iteration_G0:
  "two_band_iteration solve density filling U J mu i st = Some st' \<Longrightarrow>
     G0_iw (S st') = G0_iw (two_band_self_consistency mu i (S st))"
  by (auto simp: two_band_iteration_def Let_def split: option.splits)

lemma two_band_iteration_printed:
  "two_band_iteration solve density filling U J mu i st = Some st' \<Longrightarrow>
     filter is_iteration_line (printed st') =
       filter is_iteration_line (printed st) @ [print_iteration (i + 1) two_band_n_loops]"
  by (auto simp: two_band_iteration_def Let_def two_band_gf_struct_def split: option.splits)

lemma two_band_iteration_total:
  "(\<And>h p B. solve h p B \<noteq> None) \<Longrightarrow> two_band_iteration solve density filling U J mu i st \<noteq> None"
  by (auto simp: two_band_iteration_def Let_def split: option.splits)

lemma two_band_self_consistency_G0:
  "0 < i \<Longrightarrow> G0_iw (two_band_self_consistency mu i slv) b k =
     (if b \<in> {''up-0'', ''up-1'', ''down-0'', ''down-1''}
      then inverse (iOmega_n two_band_beta k + complex_of_real mu
                    - complex_of_real (two_band_t ^ 2)
                      * (0.25 * (G_iw slv ''up-0'' k + G_iw slv ''up-1'' k
                                 + G_iw slv ''down-0'' k + G_iw slv ''down-1'' k)))
      else G0_iw slv b k)"
  by (simp add: two_band_self_consistency_def Let_def assign_blocks_apply two_band_gf_struct_def)

lemma two_band_self_consistency_0: "two_band_self_consistency mu 0 slv = slv"
  by (simp add: two_band_self_consistency_def)

lemma two_band_loop_printed:
  "for_each (two_band_iteration solve density filling U J mu) js st = Some st' \<Longrightarrow>
     filter is_iteration_line (printed st') =
       filter is_iteration_line (printed st) @ map (\<lambda>i. print_iteration (i + 1) two_band_n_loops) js"
proof (induction js arbitrary: st)
  case Nil
  then show ?case by simp
next
  case (Cons j js)
  then obtain st1 where a: "two_band_iteration solve density filling U J mu j st = Some st1"
    and b: "for_each (two_band_iteration solve density filling U J mu) js st1 = Some st'"
    by (auto split: option.splits)
  show ?case
    using Cons.IH [OF b] two_band_iteration_printed [OF a] by simp
qed

lemma two_band_iteration_step:
  assumes "two_band_iteration solve density filling U J mu i st = Some st'"
  shows "solve (two_band_h_int U J) \<lparr>n_cycles = 30000, length_cycle = Some 100, n_warmup_cycles = 5000\<rparr>
           (G0_iw (S st')) = Some (G_iw (S st'), Sigma_iw (S st'))"
    and "G0_iw (S st') = G0_iw (two_band_self_consistency mu i (S st))"
    and "archives st' = (archives st)(two_bands_file filling U J :=
           (archives st (two_bands_file filling U J))(''G-'' @ fmt_i i \<mapsto> G_iw (S st'),
                                            ''Sigma-'' @ fmt_i i \<mapsto> Sigma_iw (S st')))"
  using assms
  by (auto simp: two_band_iteration_def Let_def split: option.splits)

lemma two_band_loop_passes:
  assumes "two_band_dmft_loop solve density filling U J mu st = Some st2"
  shows "\<exists>Gs Sigs W.
      Gs 0 = G_iw (S st) \<and> W 0 = G0_iw (S st)
    \<and> (\<forall>i<10.
          (\<forall>b k. W (Suc i) b k =
             (if 0 < i \<and> b \<in> {''up-0'', ''up-1'', ''down-0'', ''down-1''}
              then inverse (iOmega_n two_band_beta k + complex_of_real mu
                            - complex_of_real (two_band_t ^ 2)
                              * (0.25 * (Gs i ''up-0'' k + Gs i ''up-1'' k
                                         + Gs i ''down-0'' k + Gs i ''down-1'' k)))
              else W i b k))
        \<and> solve (two_band_h_int U J)
              \<lparr>n_cycles = 30000, length_cycle = Some 100, n_warmup_cycles = 5000\<rparr> (W (Suc i))
            = Some (Gs (Suc i), Sigs (Suc i))
        \<and> archives st2 (two_bands_file filling U J) (''G-'' @ fmt_i i) = Some (Gs (Suc i))
        \<and> archives st2 (two_bands_file filling U J) (''Sigma-'' @ fmt_i i) = Some (Sigs (Suc i)))
    \<and> G_iw (S st2) = Gs 10 \<and> G0_iw (S st2) = W 10 \<and> Sigma_iw (S st2) = Sigs 10
    \<and> (\<forall>key. (\<forall>i<10. key \<noteq> ''G-'' @ fmt_i i \<and> key \<noteq> ''Sigma-'' @ fmt_i i) \<longrightarrow>
          archives st2 (two_bands_file filling U J) key = archives st (two_bands_file filling U J) key)
    \<and> (\<forall>f. f \<noteq> two_bands_file filling U J \<longrightarrow> archives st2 f = archives st f)"
proof -
  from assms have "for_each (two_band_iteration solve density filling U J mu) [0..<10] st = Some st2"
    by (simp add: two_band_dmft_loop_def two_band_n_loops_def)
  from for_each_chain [OF this] obtain sts where
    s0: "sts 0 = st" and s10: "sts 10 = st2"
    and ch: "\<forall>i<10. two_band_iteration solve density filling U J mu i (sts i) = Some (sts (Suc i))"
    by blast
  have wr: "\<forall>i<10. archives (sts (Suc i)) = (archives (sts i))(two_bands_file filling U J :=
           (archives (sts i) (two_bands_file filling U J))(''G-'' @ fmt_i i \<mapsto> G_iw (S (sts (Suc i))),
                                                ''Sigma-'' @ fmt_i i \<mapsto> Sigma_iw (S (sts (Suc i)))))"
    using ch two_band_iteration_step(3) by blast
  note aw = archive_writes [where A = "\<lambda>i. archives (sts i)" and m = 10, OF wr, simplified s0 s10]
  show ?thesis
    apply (rule exI [where x = "\<lambda>i. G_iw (S (sts i))"])
    apply (rule exI [where x = "\<lambda>i. Sigma_iw (S (sts i))"])
    apply (rule exI [where x = "\<lambda>i. G0_iw (S (sts i))"])
  proof (intro conjI allI impI)
    show "G_iw (S (sts 0)) = G_iw (S st)" "G0_iw (S (sts 0)) = G0_iw (S st)"
      by (simp_all add: s0)
    show "G_iw (S st2) = G_iw (S (sts 10))" "G0_iw (S st2) = G0_iw (S (sts 10))"
      "Sigma_iw (S st2) = Sigma_iw (S (sts 10))"
      by (simp_all add: s10)
  next
    fix i :: nat and b k assume i: "i < 10"
    then have eq: "G0_iw (S (sts (Suc i))) = G0_iw (two_band_self_consistency mu i (S (sts i)))"
      using ch two_band_iteration_step(2) by blast
    show "G0_iw (S (sts (Suc i))) b k =
             (if 0 < i \<and> b \<in> {''up-0'', ''up-1'', ''down-0'', ''down-1''}
              then inverse (iOmega_n two_band_beta k + complex_of_real mu
                            - complex_of_real (two_band_t ^ 2)
                              * (0.25 * (G_iw (S (sts i)) ''up-0'' k + G_iw (S (sts i)) ''up-1'' k
                                         + G_iw (S (sts i)) ''down-0'' k + G_iw (S (sts i)) ''down-1'' k)))
              else G0_iw (S (sts i)) b k)"
    proof (cases "0 < i")
      case True
      then show ?thesis by (simp add: eq two_band_self_consistency_G0)
    next
      case False
      then have "i = 0" by simp
      with eq have "G0_iw (S (sts (Suc i))) = G0_iw (S (sts i))"
        by (simp add: two_band_self_consistency_0)
      with False show ?thesis by simp
    qed
  next
    fix i :: nat assume i: "i < 10"
    then show "solve (two_band_h_int U J)
              \<lparr>n_cycles = 30000, length_cycle = Some 100, n_warmup_cycles = 5000\<rparr> (G0_iw (S (sts (Suc i))))
            = Some (G_iw (S (sts (Suc i))), Sigma_iw (S (sts (Suc i))))"
      using ch two_band_iteration_step(1) by blast
    from i show "archives st2 (two_bands_file filling U J) (''G-'' @ fmt_i i) = Some (G_iw (S (sts (Suc i))))"
      using aw by blast
    from i show "archives st2 (two_bands_file filling U J) (''Sigma-'' @ fmt_i i) = Some (Sigma_iw (S (sts (Suc i))))"
      using aw by blast
  next
    fix key assume "\<forall>i<10. key \<noteq> ''G-'' @ fmt_i i \<and> key \<noteq> ''Sigma-'' @ fmt_i i"
    then show "archives st2 (two_bands_file filling U J) key = archives st (two_bands_file filling U J) key"
      using aw by blast
  next
    fix f assume "f \<noteq> two_bands_file filling U J"
    then show "archives st2 f = archives st f"
      using aw by blast
  qed
qed

subsection \<open>The IPT iteration\<close>

lemma ipt_fold_Suc:
  "fold (ipt_iteration Fi Ft U) [0..<Suc i] slv =
     ipt_iteration Fi Ft U i (fold (ipt_iteration Fi Ft U) [0..<i] slv)"
  by simp

lemma ipt_beta_fold: "ipt_beta (fold (ipt_iteration Fi Ft U) [0..<i] slv) = ipt_beta slv"
  by (induction i) (simp_all add: ipt_iteration_def IPTSolver_solve_def Let_def)

lemma ipt_loop_passes:
  "\<exists>Gs W Sigs Wt St.
      Gs 0 = ipt_G_iw slv
    \<and> (\<forall>i<m.
          W (Suc i) = (\<lambda>k. inverse (iOmega_n (ipt_beta slv) k - complex_of_real (ipt_t ^ 2) * Gs i k))
        \<and> Wt (Suc i) = Fi (W (Suc i))
        \<and> St (Suc i) = (\<lambda>j. complex_of_real (U ^ 2) * Wt (Suc i) j * Wt (Suc i) j * Wt (Suc i) j)
        \<and> Sigs (Suc i) = Ft (St (Suc i))
        \<and> Gs (Suc i) = (\<lambda>k. inverse (inverse (W (Suc i) k) - Sigs (Suc i) k)))
    \<and> fold (ipt_iteration Fi Ft U) [0..<m] slv =
        \<lparr>ipt_beta = ipt_beta slv, ipt_G_iw = Gs m, ipt_G0_iw = W m, ipt_Sigma_iw = Sigs m,
         ipt_G0_tau = Wt m, ipt_Sigma_tau = St m\<rparr>"
proof -
  define sts where "sts i = fold (ipt_iteration Fi Ft U) [0..<i] slv" for i
  have step: "sts (Suc i) = ipt_iteration Fi Ft U i (sts i)" for i
    by (simp add: sts_def)
  have beta: "ipt_beta (sts i) = ipt_beta slv" for i
    by (simp add: sts_def ipt_beta_fold)
  show ?thesis
    apply (rule exI [where x = "\<lambda>i. ipt_G_iw (sts i)"])
    apply (rule exI [where x = "\<lambda>i. ipt_G0_iw (sts i)"])
    apply (rule exI [where x = "\<lambda>i. ipt_Sigma_iw (sts i)"])
    apply (rule exI [where x = "\<lambda>i. ipt_G0_tau (sts i)"])
    apply (rule exI [where x = "\<lambda>i. ipt_Sigma_tau (sts i)"])
    apply (intro conjI allI impI)
          apply (simp add: sts_def)
         apply (simp_all add: step ipt_iteration_def IPTSolver_solve_def Let_def beta)
    apply (simp add: sts_def [symmetric])
    using beta [of m] apply (cases "sts m")
    apply simp
    done
qed

subsection \<open>The first guess\<close>

lemma semicircle_branch_negative:
  assumes "0 < w" "D \<noteq> 0"
  shows "w - sgn w * sqrt (w * w + D * D) < 0"
proof -
  have "0 < D * D" using assms(2) by (auto simp: zero_less_mult_iff)
  then have "sqrt (w * w) < sqrt (w * w + D * D)"
    by (intro real_sqrt_less_mono) simp
  moreover have "sqrt (w * w) = w" using assms(1) by simp
  moreover have "sgn w = 1" using assms(1) by simp
  ultimately show ?thesis by simp
qed

lemma SemiCircular_nonzero:
  assumes "0 < beta" "D \<noteq> 0" "0 \<le> k"
  shows "SemiCircular beta D k \<noteq> 0"
proof -
  have "0 < (2 * of_int k + 1) * pi / beta"
    using assms by (simp add: zero_less_mult_iff)
  then have "(2 * of_int k + 1) * pi / beta
      - sgn ((2 * of_int k + 1) * pi / beta)
        * sqrt ((2 * of_int k + 1) * pi / beta * ((2 * of_int k + 1) * pi / beta) + D * D) < 0"
    using assms(2) by (rule semicircle_branch_negative)
  then show ?thesis
    using assms(2) by (simp add: SemiCircular_def Let_def complex_eq_iff)
qed

lemma SemiCircular_0_nonzero: "SemiCircular two_band_beta (2 * two_band_t) 0 \<noteq> 0"
  by (rule SemiCircular_nonzero) (simp_all add: two_band_beta_def two_band_t_def)

subsection \<open>The self-consistency equation\<close>

text \<open>
  C3, as amended. In every pass of the single-orbital loop, and in every pass \<open>j \<ge> 1\<close>
  of the two-orbital loop, each block of \<open>S.G0_iw\<close> is assigned from the one equation
  \<open>G0\<^sup>-\<^sup>1 = i\<omega> + \<mu> - t\<^sup>2 g\<close>, where \<open>g\<close> is the average of the blocks of
  \<open>S.G_iw\<close> and \<open>\<mu> = U/2\<close> in the single-orbital script; no sum over momenta occurs.
  In pass 0 of the two-orbital loop nothing is assigned: the solver receives the first
  guess made before the loop, which has the same form with \<open>SemiCircular(2t)\<close> in the
  place of \<open>g\<close>.
\<close>

theorem bethe_self_consistency_equation:
  "(one_band_iteration solve U i st = Some st1 \<longrightarrow>
      (\<forall>b \<in> set (map fst one_band_gf_struct). \<forall>k. inverse (G0_iw (S st1) b k) =
          iOmega_n one_band_beta k + complex_of_real (U / 2)
            - complex_of_real (one_band_t ^ 2)
              * (0.5 * (G_iw (S st) ''up'' k + G_iw (S st) ''down'' k))))
   \<and> (0 < j \<and> two_band_iteration solve density filling U J mu j st = Some st2 \<longrightarrow>
      (\<forall>b \<in> set (map fst two_band_gf_struct). \<forall>k. inverse (G0_iw (S st2) b k) =
          iOmega_n two_band_beta k + complex_of_real mu
            - complex_of_real (two_band_t ^ 2)
              * (0.25 * (G_iw (S st) ''up-0'' k + G_iw (S st) ''up-1'' k
                         + G_iw (S st) ''down-0'' k + G_iw (S st) ''down-1'' k))))
   \<and> (two_band_iteration solve density filling U J mu 0
          (st\<lparr>S := two_band_first_guess mu (S st)\<rparr>) = Some st3 \<longrightarrow>
      (\<forall>b \<in> set (map fst two_band_gf_struct). \<forall>k. inverse (G0_iw (S st3) b k) =
          iOmega_n two_band_beta k + complex_of_real mu
            - complex_of_real (two_band_t ^ 2) * SemiCircular two_band_beta (2 * two_band_t) k))"
proof (intro conjI impI)
  assume "one_band_iteration solve U i st = Some st1"
  then have "G0_iw (S st1) = G0_iw (one_band_self_consistency U (S st))"
    by (rule one_band_iteration_G0)
  then show "\<forall>b \<in> set (map fst one_band_gf_struct). \<forall>k. inverse (G0_iw (S st1) b k) =
          iOmega_n one_band_beta k + complex_of_real (U / 2)
            - complex_of_real (one_band_t ^ 2)
              * (0.5 * (G_iw (S st) ''up'' k + G_iw (S st) ''down'' k))"
    by (simp add: one_band_self_consistency_G0 one_band_gf_struct_def)
next
  assume a: "0 < j \<and> two_band_iteration solve density filling U J mu j st = Some st2"
  then have "G0_iw (S st2) = G0_iw (two_band_self_consistency mu j (S st))"
    using two_band_iteration_G0 by blast
  with a show "\<forall>b \<in> set (map fst two_band_gf_struct). \<forall>k. inverse (G0_iw (S st2) b k) =
          iOmega_n two_band_beta k + complex_of_real mu
            - complex_of_real (two_band_t ^ 2)
              * (0.25 * (G_iw (S st) ''up-0'' k + G_iw (S st) ''up-1'' k
                         + G_iw (S st) ''down-0'' k + G_iw (S st) ''down-1'' k))"
    by (simp add: two_band_self_consistency_G0 two_band_gf_struct_def)
next
  assume "two_band_iteration solve density filling U J mu 0
          (st\<lparr>S := two_band_first_guess mu (S st)\<rparr>) = Some st3"
  then have "G0_iw (S st3) = G0_iw (two_band_first_guess mu (S st))"
    using two_band_iteration_G0 [of solve density filling U J mu 0 _ st3]
    by (simp add: two_band_self_consistency_0)
  then show "\<forall>b \<in> set (map fst two_band_gf_struct). \<forall>k. inverse (G0_iw (S st3) b k) =
          iOmega_n two_band_beta k + complex_of_real mu
            - complex_of_real (two_band_t ^ 2) * SemiCircular two_band_beta (2 * two_band_t) k"
    by (simp add: two_band_first_guess_def assign_blocks_apply)
qed

theorem bethe_self_consistency_equation_witness:
  "(\<exists>st1. one_band_iteration solve_echo 4 0 state_asym = Some st1
      \<and> inverse (G0_iw (S st1) ''up'' 0) = iOmega_n one_band_beta 0)
   \<and> (\<exists>st2. two_band_iteration solve_echo (\<lambda>g. 0) ''half'' 4 1 (7 / 2) 1 state_asym = Some st2
      \<and> inverse (G0_iw (S st2) ''up-0'' 0) = iOmega_n two_band_beta 0 + 1 / 2)
   \<and> (\<exists>st3. two_band_iteration solve_echo (\<lambda>g. 0) ''half'' 4 1 (7 / 2) 0
               (state_asym\<lparr>S := two_band_first_guess (7 / 2) (S state_asym)\<rparr>) = Some st3
      \<and> inverse (G0_iw (S st3) ''up-0'' 0) =
          iOmega_n two_band_beta 0 + 7 / 2 - SemiCircular two_band_beta 2 0)"
proof -
  obtain a where a: "one_band_iteration solve_echo 4 0 state_asym = Some a"
    using one_band_iteration_total [of solve_echo 4 0 state_asym] solve_echo_total by auto
  obtain b where b: "two_band_iteration solve_echo (\<lambda>g. 0) ''half'' 4 1 (7 / 2) 1 state_asym = Some b"
    using two_band_iteration_total [of solve_echo "\<lambda>g. 0" "''half''" 4 1 "7 / 2" 1 state_asym]
      solve_echo_total by auto
  obtain c' where c': "two_band_iteration solve_echo (\<lambda>g. 0) ''half'' 4 1 (7 / 2) 0
               (state_asym\<lparr>S := two_band_first_guess (7 / 2) (S state_asym)\<rparr>) = Some c'"
    using two_band_iteration_total [of solve_echo "\<lambda>g. 0" "''half''" 4 1 "7 / 2" 0
        "state_asym\<lparr>S := two_band_first_guess (7 / 2) (S state_asym)\<rparr>"]
      solve_echo_total by auto
  note T = bethe_self_consistency_equation [where solve = solve_echo and U = 4 and i = 0
      and st = state_asym and ?st1.0 = a and density = "\<lambda>g. 0" and filling = "''half''"
      and J = 1 and mu = "7 / 2" and j = 1 and ?st2.0 = b and ?st3.0 = c']
  from T a have 1: "inverse (G0_iw (S a) ''up'' 0) = iOmega_n one_band_beta 0"
    by (simp add: state_asym_def solver_asym_def one_band_t_def one_band_gf_struct_def)
  from T b have 2: "inverse (G0_iw (S b) ''up-0'' 0) = iOmega_n two_band_beta 0 + 1 / 2"
    by (simp add: state_asym_def solver_asym_def two_band_t_def two_band_gf_struct_def)
  from T c' have 3: "inverse (G0_iw (S c') ''up-0'' 0) =
      iOmega_n two_band_beta 0 + 7 / 2 - SemiCircular two_band_beta 2 0"
    by (simp add: two_band_t_def two_band_gf_struct_def)
  from a b c' 1 2 3 show ?thesis by simp
qed

text \<open>
  C3 as stated fails in pass 0 of the two-orbital loop. Entering the loop for
  \<open>coeff = 0.0\<close>, \<open>U = 1.0\<close> (so \<open>\<mu> = 1.5\<close>) with a solver whose \<open>G_iw\<close> is still
  zero, the block \<open>up-0\<close> of \<open>S.G0_iw\<close> after the pass is not
  \<open>inverse (i\<omega> + \<mu> - t\<^sup>2 g)\<close> for the average \<open>g\<close> of \<open>S.G_iw\<close>: the guard
  \<open>if i > 0\<close> skipped the assignment.
\<close>

theorem two_band_no_update_at_iteration_0:
  "map_option (\<lambda>st'. G0_iw (S st') ''up-0'' 0)
     (two_band_iteration solve_echo (\<lambda>g. 0) ''half'' 1 0 (3 / 2) 0 two_band_entry_state)
   \<noteq> Some (inverse (iOmega_n two_band_beta 0 + complex_of_real (3 / 2)
              - complex_of_real (two_band_t ^ 2)
                * (0.25 * (G_iw (S two_band_entry_state) ''up-0'' 0
                           + G_iw (S two_band_entry_state) ''up-1'' 0
                           + G_iw (S two_band_entry_state) ''down-0'' 0
                           + G_iw (S two_band_entry_state) ''down-1'' 0))))"
proof -
  have "two_band_iteration solve_echo (\<lambda>g. 0) ''half'' 1 0 (3 / 2) 0 two_band_entry_state \<noteq> None"
    by (rule two_band_iteration_total) (simp add: solve_echo_def)
  then obtain st' where
    r: "two_band_iteration solve_echo (\<lambda>g. 0) ''half'' 1 0 (3 / 2) 0 two_band_entry_state = Some st'"
    by auto
  then have "G0_iw (S st') = G0_iw (S two_band_entry_state)"
    using two_band_iteration_G0 [OF r] by (simp add: two_band_self_consistency_0)
  then have g: "G0_iw (S st') ''up-0'' 0 =
      inverse (iOmega_n two_band_beta 0 + complex_of_real (3 / 2)
               - complex_of_real (two_band_t ^ 2) * SemiCircular two_band_beta (2 * two_band_t) 0)"
    by (simp add: two_band_entry_state_def two_band_first_guess_def assign_blocks_apply
        two_band_gf_struct_def)
  have z: "G_iw (S two_band_entry_state) b k = 0" for b k
    by (simp add: two_band_entry_state_def two_band_first_guess_def solver_zero_def)
  show ?thesis
    using SemiCircular_0_nonzero by (simp add: r g z two_band_t_def)
qed

subsection \<open>Symmetrization\<close>

text \<open>
  C4. The single-orbital script averages \<open>up\<close> and \<open>down\<close> in every pass \<open>i\<close>,
  pass 0 included, and assigns both blocks of \<open>S.G0_iw\<close> from the average. The
  two-orbital script leaves \<open>S.G0_iw\<close> as it is in pass 0 and assigns all four blocks
  from the average over the four spin and orbital channels only in the passes \<open>j \<ge> 1\<close>.
\<close>

theorem symmetrization_schedule:
  "(one_band_iteration solve U i st = Some st1 \<longrightarrow>
      (\<forall>b \<in> {''up'', ''down''}. \<forall>k. G0_iw (S st1) b k =
          inverse (iOmega_n one_band_beta k + complex_of_real (U / 2)
                   - complex_of_real (one_band_t ^ 2)
                     * (0.5 * (G_iw (S st) ''up'' k + G_iw (S st) ''down'' k)))))
   \<and> (two_band_iteration solve density filling U J mu 0 st = Some st2 \<longrightarrow>
        G0_iw (S st2) = G0_iw (S st))
   \<and> (0 < j \<and> two_band_iteration solve density filling U J mu j st = Some st3 \<longrightarrow>
      (\<forall>b \<in> {''up-0'', ''up-1'', ''down-0'', ''down-1''}. \<forall>k. G0_iw (S st3) b k =
          inverse (iOmega_n two_band_beta k + complex_of_real mu
                   - complex_of_real (two_band_t ^ 2)
                     * (0.25 * (G_iw (S st) ''up-0'' k + G_iw (S st) ''up-1'' k
                                + G_iw (S st) ''down-0'' k + G_iw (S st) ''down-1'' k)))))"
proof (intro conjI impI)
  assume "one_band_iteration solve U i st = Some st1"
  then have "G0_iw (S st1) = G0_iw (one_band_self_consistency U (S st))"
    by (rule one_band_iteration_G0)
  then show "\<forall>b \<in> {''up'', ''down''}. \<forall>k. G0_iw (S st1) b k =
          inverse (iOmega_n one_band_beta k + complex_of_real (U / 2)
                   - complex_of_real (one_band_t ^ 2)
                     * (0.5 * (G_iw (S st) ''up'' k + G_iw (S st) ''down'' k)))"
    by (simp add: one_band_self_consistency_G0)
next
  assume "two_band_iteration solve density filling U J mu 0 st = Some st2"
  then show "G0_iw (S st2) = G0_iw (S st)"
    using two_band_iteration_G0 [of solve density filling U J mu 0 st st2]
    by (simp add: two_band_self_consistency_0)
next
  assume a: "0 < j \<and> two_band_iteration solve density filling U J mu j st = Some st3"
  then have "G0_iw (S st3) = G0_iw (two_band_self_consistency mu j (S st))"
    using two_band_iteration_G0 by blast
  with a show "\<forall>b \<in> {''up-0'', ''up-1'', ''down-0'', ''down-1''}. \<forall>k. G0_iw (S st3) b k =
          inverse (iOmega_n two_band_beta k + complex_of_real mu
                   - complex_of_real (two_band_t ^ 2)
                     * (0.25 * (G_iw (S st) ''up-0'' k + G_iw (S st) ''up-1'' k
                                + G_iw (S st) ''down-0'' k + G_iw (S st) ''down-1'' k)))"
    by (simp add: two_band_self_consistency_G0)
qed

theorem symmetrization_schedule_witness:
  "(\<exists>st1. one_band_iteration solve_echo 4 0 state_asym = Some st1
      \<and> G0_iw (S st1) ''up'' 0 = inverse (iOmega_n one_band_beta 0))
   \<and> (\<exists>st2. two_band_iteration solve_echo (\<lambda>g. 0) ''half'' 4 1 (7 / 2) 0 state_asym = Some st2
      \<and> G0_iw (S st2) ''up-0'' 0 = 7)
   \<and> (\<exists>st3. two_band_iteration solve_echo (\<lambda>g. 0) ''half'' 4 1 (7 / 2) 1 state_asym = Some st3
      \<and> G0_iw (S st3) ''up-0'' 0 = inverse (iOmega_n two_band_beta 0 + 1 / 2))"
proof -
  obtain a where a: "one_band_iteration solve_echo 4 0 state_asym = Some a"
    using one_band_iteration_total [of solve_echo 4 0 state_asym] solve_echo_total by auto
  obtain b where b: "two_band_iteration solve_echo (\<lambda>g. 0) ''half'' 4 1 (7 / 2) 0 state_asym = Some b"
    using two_band_iteration_total [of solve_echo "\<lambda>g. 0" "''half''" 4 1 "7 / 2" 0 state_asym]
      solve_echo_total by auto
  obtain c' where c': "two_band_iteration solve_echo (\<lambda>g. 0) ''half'' 4 1 (7 / 2) 1 state_asym = Some c'"
    using two_band_iteration_total [of solve_echo "\<lambda>g. 0" "''half''" 4 1 "7 / 2" 1 state_asym]
      solve_echo_total by auto
  note T = symmetrization_schedule [where solve = solve_echo and U = 4 and i = 0 and st = state_asym
      and ?st1.0 = a and density = "\<lambda>g. 0" and filling = "''half''" and J = 1 and mu = "7 / 2"
      and ?st2.0 = b and j = 1 and ?st3.0 = c']
  from T a have 1: "G0_iw (S a) ''up'' 0 = inverse (iOmega_n one_band_beta 0)"
    by (simp add: state_asym_def solver_asym_def one_band_t_def)
  from T b have 2: "G0_iw (S b) ''up-0'' 0 = 7"
    by (simp add: state_asym_def solver_asym_def)
  from T c' have 3: "G0_iw (S c') ''up-0'' 0 = inverse (iOmega_n two_band_beta 0 + 1 / 2)"
    by (simp add: state_asym_def solver_asym_def two_band_t_def)
  from a b c' 1 2 3 show ?thesis by simp
qed

text \<open>
  C10. After every pass of the single-orbital loop both blocks \<open>up\<close> and \<open>down\<close>
  of \<open>S.G0_iw\<close> hold \<open>inverse (iOmega_n + U/2 - t\<^sup>2 g)\<close> for the one
  \<open>g = 0.5 (G_up + G_down)\<close> formed from \<open>S.G_iw\<close> as the pass found it, hence are
  equal, and this is the Weiss field the solver of that pass was given.
\<close>

theorem one_band_G0_spin_symmetric:
  "for_each (one_band_iteration solve U) [0..<Suc j] st = Some st' \<Longrightarrow>
     \<exists>st1. for_each (one_band_iteration solve U) [0..<j] st = Some st1
       \<and> (\<forall>b \<in> {''up'', ''down''}. G0_iw (S st') b =
            (\<lambda>k. inverse (iOmega_n one_band_beta k + complex_of_real (U / 2)
                            - complex_of_real (one_band_t ^ 2)
                              * (0.5 * (G_iw (S st1) ''up'' k + G_iw (S st1) ''down'' k)))))
       \<and> G0_iw (S st') ''up'' = G0_iw (S st') ''down''
       \<and> solve (one_band_h_int U)
            \<lparr>n_cycles = 10000, length_cycle = None, n_warmup_cycles = 5000\<rparr> (G0_iw (S st'))
           = Some (G_iw (S st'), Sigma_iw (S st'))"
proof -
  assume run: "for_each (one_band_iteration solve U) [0..<Suc j] st = Some st'"
  then obtain st1 where pre: "for_each (one_band_iteration solve U) [0..<j] st = Some st1"
    and last: "one_band_iteration solve U j st1 = Some st'"
    by (auto simp: for_each_snoc split: option.splits)
  have eq: "G0_iw (S st') = G0_iw (one_band_self_consistency U (S st1))"
    using last by (rule one_band_iteration_step(2))
  have blocks: "\<forall>b \<in> {''up'', ''down''}. G0_iw (S st') b =
            (\<lambda>k. inverse (iOmega_n one_band_beta k + complex_of_real (U / 2)
                            - complex_of_real (one_band_t ^ 2)
                              * (0.5 * (G_iw (S st1) ''up'' k + G_iw (S st1) ''down'' k))))"
    by (simp add: eq one_band_self_consistency_G0 fun_eq_iff)
  then have "G0_iw (S st') ''up'' = G0_iw (S st') ''down''" by simp
  with pre blocks one_band_iteration_step(1) [OF last] show ?thesis by blast
qed

theorem one_band_G0_spin_symmetric_witness:
  "\<exists>st'. for_each (one_band_iteration solve_skew 4) [0..<2] state_asym = Some st'
     \<and> G0_iw (S state_asym) ''up'' 0 = 5 \<and> G0_iw (S state_asym) ''down'' 0 = 7
     \<and> G0_iw (S st') ''up'' 0 = inverse (iOmega_n one_band_beta 0 - inverse (iOmega_n one_band_beta 0))
     \<and> G0_iw (S st') ''down'' 0 = inverse (iOmega_n one_band_beta 0 - inverse (iOmega_n one_band_beta 0))"
proof -
  have "for_each (one_band_iteration solve_skew 4) [0..<2] state_asym \<noteq> None"
    by (rule for_each_total, rule one_band_iteration_total) (simp add: solve_skew_def)
  then obtain st' where r: "for_each (one_band_iteration solve_skew 4) [0..<Suc 1] state_asym = Some st'"
    by (auto simp: numeral_2_eq_2)
  from one_band_G0_spin_symmetric [OF r] obtain st1 where
    p: "for_each (one_band_iteration solve_skew 4) [0..<1] state_asym = Some st1"
    and b: "\<forall>b \<in> {''up'', ''down''}. G0_iw (S st') b =
            (\<lambda>k. inverse (iOmega_n one_band_beta k + complex_of_real (4 / 2)
                            - complex_of_real (one_band_t ^ 2)
                              * (0.5 * (G_iw (S st1) ''up'' k + G_iw (S st1) ''down'' k))))"
    by blast
  from p have first: "one_band_iteration solve_skew 4 0 state_asym = Some st1"
    by (simp split: option.splits)
  have w1: "G0_iw (S st1) b k = (if b = ''up'' \<or> b = ''down'' then inverse (iOmega_n one_band_beta k) else 7)" for b k
    using one_band_iteration_step(2) [OF first]
    by (simp add: one_band_self_consistency_G0 state_asym_def solver_asym_def one_band_t_def)
  have g1: "G_iw (S st1) = (\<lambda>b k. G0_iw (S st1) b k + (if b = ''up'' then 1 else 3))"
    using one_band_iteration_step(1) [OF first] by (auto simp: solve_skew_def)
  have up: "G_iw (S st1) ''up'' 0 = inverse (iOmega_n one_band_beta 0) + 1"
    and down: "G_iw (S st1) ''down'' 0 = inverse (iOmega_n one_band_beta 0) + 3"
    by (simp_all add: g1 w1)
  have avg: "0.5 * (G_iw (S st1) ''up'' 0 + G_iw (S st1) ''down'' 0)
      = inverse (iOmega_n one_band_beta 0) + 2"
    unfolding up down by simp
  have "G0_iw (S st') b 0 =
      inverse (iOmega_n one_band_beta 0 + complex_of_real (4 / 2)
               - complex_of_real (one_band_t ^ 2)
                 * (0.5 * (G_iw (S st1) ''up'' 0 + G_iw (S st1) ''down'' 0)))"
    if "b \<in> {''up'', ''down''}" for b
    using b that by (metis (no_types, lifting))
  then have "G0_iw (S st') b 0 = inverse (iOmega_n one_band_beta 0 - inverse (iOmega_n one_band_beta 0))"
    if "b \<in> {''up'', ''down''}" for b
    unfolding avg using that by (simp add: one_band_t_def)
  then have "G0_iw (S st') ''up'' 0 = inverse (iOmega_n one_band_beta 0 - inverse (iOmega_n one_band_beta 0))"
    "G0_iw (S st') ''down'' 0 = inverse (iOmega_n one_band_beta 0 - inverse (iOmega_n one_band_beta 0))"
    by simp_all
  with r show ?thesis
    by (simp add: numeral_2_eq_2 state_asym_def solver_asym_def)
qed

subsection \<open>The number of passes\<close>

text \<open>
  C9. Each of the three loops makes exactly \<open>n_loops\<close> passes (10 in the two CTQMC
  scripts, 30 in the IPT script), whatever values the Green's functions take: no test
  of convergence ends a loop early or prolongs it. A run of a CTQMC loop that comes to
  its end has called the solver ten times, each time on the Weiss field of that pass,
  has stored the ten results under the keys \<open>G-0\<close>, \<open>Sigma-0\<close> to \<open>G-9\<close>,
  \<open>Sigma-9\<close> of its archive and touched no other key and no other archive, has
  printed the ten lines \<open>Iteration = 1 / 10\<close> to \<open>10 / 10\<close>, and leaves in \<open>S\<close> the
  result of the tenth pass; a solver that never fails lets the loop come to its end.
  The IPT loop, which cannot fail, leaves in \<open>S\<close> the result of the thirtieth pass.
\<close>

theorem dmft_loops_fixed_iteration_count:
  "(one_band_dmft_loop solve U st = Some st1 \<longrightarrow>
      printed st1 = printed st @ map (\<lambda>i. print_iteration (i + 1) 10) [0..<10]
    \<and> (\<exists>Gs Sigs W.
          Gs 0 = G_iw (S st) \<and> W 0 = G0_iw (S st)
        \<and> (\<forall>i<10.
              (\<forall>b k. W (Suc i) b k =
                 (if b = ''up'' \<or> b = ''down''
                  then inverse (iOmega_n one_band_beta k + complex_of_real (U / 2)
                                - complex_of_real (one_band_t ^ 2)
                                  * (0.5 * (Gs i ''up'' k + Gs i ''down'' k)))
                  else W i b k))
            \<and> solve (one_band_h_int U)
                  \<lparr>n_cycles = 10000, length_cycle = None, n_warmup_cycles = 5000\<rparr> (W (Suc i))
                = Some (Gs (Suc i), Sigs (Suc i))
            \<and> archives st1 (one_band_file U) (''G-'' @ fmt_i i) = Some (Gs (Suc i))
            \<and> archives st1 (one_band_file U) (''Sigma-'' @ fmt_i i) = Some (Sigs (Suc i)))
        \<and> G_iw (S st1) = Gs 10 \<and> G0_iw (S st1) = W 10 \<and> Sigma_iw (S st1) = Sigs 10
        \<and> (\<forall>key. (\<forall>i<10. key \<noteq> ''G-'' @ fmt_i i \<and> key \<noteq> ''Sigma-'' @ fmt_i i) \<longrightarrow>
              archives st1 (one_band_file U) key = archives st (one_band_file U) key)
        \<and> (\<forall>f. f \<noteq> one_band_file U \<longrightarrow> archives st1 f = archives st f)))
   \<and> ((\<forall>h p B. solve h p B \<noteq> None) \<longrightarrow> (\<exists>st'. one_band_dmft_loop solve U st = Some st'))
   \<and> (two_band_dmft_loop solve density filling U J mu st = Some st2 \<longrightarrow>
      filter is_iteration_line (printed st2) =
        filter is_iteration_line (printed st) @ map (\<lambda>i. print_iteration (i + 1) 10) [0..<10]
    \<and> (\<exists>Gs Sigs W.
          Gs 0 = G_iw (S st) \<and> W 0 = G0_iw (S st)
        \<and> (\<forall>i<10.
              (\<forall>b k. W (Suc i) b k =
                 (if 0 < i \<and> b \<in> {''up-0'', ''up-1'', ''down-0'', ''down-1''}
                  then inverse (iOmega_n two_band_beta k + complex_of_real mu
                                - complex_of_real (two_band_t ^ 2)
                                  * (0.25 * (Gs i ''up-0'' k + Gs i ''up-1'' k
                                             + Gs i ''down-0'' k + Gs i ''down-1'' k)))
                  else W i b k))
            \<and> solve (two_band_h_int U J)
                  \<lparr>n_cycles = 30000, length_cycle = Some 100, n_warmup_cycles = 5000\<rparr> (W (Suc i))
                = Some (Gs (Suc i), Sigs (Suc i))
            \<and> archives st2 (two_bands_file filling U J) (''G-'' @ fmt_i i) = Some (Gs (Suc i))
            \<and> archives st2 (two_bands_file filling U J) (''Sigma-'' @ fmt_i i) = Some (Sigs (Suc i)))
        \<and> G_iw (S st2) = Gs 10 \<and> G0_iw (S st2) = W 10 \<and> Sigma_iw (S st2) = Sigs 10
        \<and> (\<forall>key. (\<forall>i<10. key \<noteq> ''G-'' @ fmt_i i \<and> key \<noteq> ''Sigma-'' @ fmt_i i) \<longrightarrow>
              archives st2 (two_bands_file filling U J) key
                = archives st (two_bands_file filling U J) key)
        \<and> (\<forall>f. f \<noteq> two_bands_file filling U J \<longrightarrow> archives st2 f = archives st f)))
   \<and> ((\<forall>h p B. solve h p B \<noteq> None) \<longrightarrow>
        (\<exists>st'. two_band_dmft_loop solve density filling U J mu st = Some st'))
   \<and> (\<exists>Gs W Sigs Wt St.
          Gs 0 = ipt_G_iw slv
        \<and> (\<forall>i<30.
              W (Suc i) = (\<lambda>k. inverse (iOmega_n (ipt_beta slv) k
                                          - complex_of_real (ipt_t ^ 2) * Gs i k))
            \<and> Wt (Suc i) = Fourier_iw (W (Suc i))
            \<and> St (Suc i) = (\<lambda>j. complex_of_real (U ^ 2) * Wt (Suc i) j * Wt (Suc i) j * Wt (Suc i) j)
            \<and> Sigs (Suc i) = Fourier_tau (St (Suc i))
            \<and> Gs (Suc i) = (\<lambda>k. inverse (inverse (W (Suc i) k) - Sigs (Suc i) k)))
        \<and> ipt_dmft_loop Fourier_iw Fourier_tau U slv =
            \<lparr>ipt_beta = ipt_beta slv, ipt_G_iw = Gs 30, ipt_G0_iw = W 30, ipt_Sigma_iw = Sigs 30,
             ipt_G0_tau = Wt 30, ipt_Sigma_tau = St 30\<rparr>)"
proof (intro conjI impI)
  assume "one_band_dmft_loop solve U st = Some st1"
  then show "printed st1 = printed st @ map (\<lambda>i. print_iteration (i + 1) 10) [0..<10]"
    using one_band_loop_printed [of solve U "[0..<10]" st st1]
    by (simp add: one_band_dmft_loop_def one_band_n_loops_def)
next
  assume "one_band_dmft_loop solve U st = Some st1"
  then show "\<exists>Gs Sigs W.
          Gs 0 = G_iw (S st) \<and> W 0 = G0_iw (S st)
        \<and> (\<forall>i<10.
              (\<forall>b k. W (Suc i) b k =
                 (if b = ''up'' \<or> b = ''down''
                  then inverse (iOmega_n one_band_beta k + complex_of_real (U / 2)
                                - complex_of_real (one_band_t ^ 2)
                                  * (0.5 * (Gs i ''up'' k + Gs i ''down'' k)))
                  else W i b k))
            \<and> solve (one_band_h_int U)
                  \<lparr>n_cycles = 10000, length_cycle = None, n_warmup_cycles = 5000\<rparr> (W (Suc i))
                = Some (Gs (Suc i), Sigs (Suc i))
            \<and> archives st1 (one_band_file U) (''G-'' @ fmt_i i) = Some (Gs (Suc i))
            \<and> archives st1 (one_band_file U) (''Sigma-'' @ fmt_i i) = Some (Sigs (Suc i)))
        \<and> G_iw (S st1) = Gs 10 \<and> G0_iw (S st1) = W 10 \<and> Sigma_iw (S st1) = Sigs 10
        \<and> (\<forall>key. (\<forall>i<10. key \<noteq> ''G-'' @ fmt_i i \<and> key \<noteq> ''Sigma-'' @ fmt_i i) \<longrightarrow>
              archives st1 (one_band_file U) key = archives st (one_band_file U) key)
        \<and> (\<forall>f. f \<noteq> one_band_file U \<longrightarrow> archives st1 f = archives st f)"
    by (rule one_band_loop_passes)
next
  assume "\<forall>h p B. solve h p B \<noteq> None"
  then have "one_band_dmft_loop solve U st \<noteq> None"
    unfolding one_band_dmft_loop_def
    by (intro for_each_total one_band_iteration_total) simp
  then show "\<exists>st'. one_band_dmft_loop solve U st = Some st'" by auto
next
  assume "two_band_dmft_loop solve density filling U J mu st = Some st2"
  then show "filter is_iteration_line (printed st2) =
        filter is_iteration_line (printed st) @ map (\<lambda>i. print_iteration (i + 1) 10) [0..<10]"
    using two_band_loop_printed [of solve density filling U J mu "[0..<10]" st st2]
    by (simp add: two_band_dmft_loop_def two_band_n_loops_def)
next
  assume "two_band_dmft_loop solve density filling U J mu st = Some st2"
  then show "\<exists>Gs Sigs W.
          Gs 0 = G_iw (S st) \<and> W 0 = G0_iw (S st)
        \<and> (\<forall>i<10.
              (\<forall>b k. W (Suc i) b k =
                 (if 0 < i \<and> b \<in> {''up-0'', ''up-1'', ''down-0'', ''down-1''}
                  then inverse (iOmega_n two_band_beta k + complex_of_real mu
                                - complex_of_real (two_band_t ^ 2)
                                  * (0.25 * (Gs i ''up-0'' k + Gs i ''up-1'' k
                                             + Gs i ''down-0'' k + Gs i ''down-1'' k)))
                  else W i b k))
            \<and> solve (two_band_h_int U J)
                  \<lparr>n_cycles = 30000, length_cycle = Some 100, n_warmup_cycles = 5000\<rparr> (W (Suc i))
                = Some (Gs (Suc i), Sigs (Suc i))
            \<and> archives st2 (two_bands_file filling U J) (''G-'' @ fmt_i i) = Some (Gs (Suc i))
            \<and> archives st2 (two_bands_file filling U J) (''Sigma-'' @ fmt_i i) = Some (Sigs (Suc i)))
        \<and> G_iw (S st2) = Gs 10 \<and> G0_iw (S st2) = W 10 \<and> Sigma_iw (S st2) = Sigs 10
        \<and> (\<forall>key. (\<forall>i<10. key \<noteq> ''G-'' @ fmt_i i \<and> key \<noteq> ''Sigma-'' @ fmt_i i) \<longrightarrow>
              archives st2 (two_bands_file filling U J) key
                = archives st (two_bands_file filling U J) key)
        \<and> (\<forall>f. f \<noteq> two_bands_file filling U J \<longrightarrow> archives st2 f = archives st f)"
    by (rule two_band_loop_passes)
next
  assume "\<forall>h p B. solve h p B \<noteq> None"
  then have "two_band_dmft_loop solve density filling U J mu st \<noteq> None"
    unfolding two_band_dmft_loop_def
    by (intro for_each_total two_band_iteration_total) simp
  then show "\<exists>st'. two_band_dmft_loop solve density filling U J mu st = Some st'" by auto
next
  show "\<exists>Gs W Sigs Wt St.
          Gs 0 = ipt_G_iw slv
        \<and> (\<forall>i<30.
              W (Suc i) = (\<lambda>k. inverse (iOmega_n (ipt_beta slv) k
                                          - complex_of_real (ipt_t ^ 2) * Gs i k))
            \<and> Wt (Suc i) = Fourier_iw (W (Suc i))
            \<and> St (Suc i) = (\<lambda>j. complex_of_real (U ^ 2) * Wt (Suc i) j * Wt (Suc i) j * Wt (Suc i) j)
            \<and> Sigs (Suc i) = Fourier_tau (St (Suc i))
            \<and> Gs (Suc i) = (\<lambda>k. inverse (inverse (W (Suc i) k) - Sigs (Suc i) k)))
        \<and> ipt_dmft_loop Fourier_iw Fourier_tau U slv =
            \<lparr>ipt_beta = ipt_beta slv, ipt_G_iw = Gs 30, ipt_G0_iw = W 30, ipt_Sigma_iw = Sigs 30,
             ipt_G0_tau = Wt 30, ipt_Sigma_tau = St 30\<rparr>"
    unfolding ipt_dmft_loop_def ipt_n_loops_def by (rule ipt_loop_passes)
qed

theorem dmft_loops_fixed_iteration_count_witness:
  "(\<exists>st1. one_band_dmft_loop solve_skew 4 state_asym = Some st1
      \<and> printed st1 = map (\<lambda>i. print_iteration (i + 1) 10) [0..<10]
      \<and> archives st1 (one_band_file 4) ''G-9'' = Some (G_iw (S st1))
      \<and> archives st1 (one_band_file 4) ''Sigma-9'' = Some (Sigma_iw (S st1))
      \<and> archives st1 (one_band_file 4) ''G-10'' = None)
   \<and> (\<exists>st2. two_band_dmft_loop solve_skew (\<lambda>g. 0) ''half'' 4 1 (7 / 2) state_asym = Some st2
      \<and> filter is_iteration_line (printed st2) = map (\<lambda>i. print_iteration (i + 1) 10) [0..<10]
      \<and> archives st2 (two_bands_file ''half'' 4 1) ''G-9'' = Some (G_iw (S st2))
      \<and> archives st2 (two_bands_file ''half'' 4 1) ''Sigma-9'' = Some (Sigma_iw (S st2))
      \<and> archives st2 (two_bands_file ''half'' 4 1) ''G-10'' = None)
   \<and> ipt_G0_tau (ipt_dmft_loop toy_Fourier_iw toy_Fourier_tau 4 (IPTSolver_init 10))
       = toy_Fourier_iw (ipt_G0_iw (ipt_dmft_loop toy_Fourier_iw toy_Fourier_tau 4 (IPTSolver_init 10)))"
proof -
  note T = dmft_loops_fixed_iteration_count [where solve = solve_skew and U = 4 and st = state_asym
      and density = "\<lambda>g. 0" and filling = "''half''" and J = 1 and mu = "7 / 2"
      and Fourier_iw = toy_Fourier_iw and Fourier_tau = toy_Fourier_tau
      and slv = "IPTSolver_init 10"]
  note T2 = T [THEN conjunct2]
  note T3 = T2 [THEN conjunct2]
  note T4 = T3 [THEN conjunct2]
  have e: "archives state_asym f key = None" "printed state_asym = []" for f key
    by (simp_all add: state_asym_def)
  from T2 [THEN conjunct1] solve_skew_total obtain a
    where a: "one_band_dmft_loop solve_skew 4 state_asym = Some a"
    by blast
  from T4 [THEN conjunct1] solve_skew_total obtain b
    where b: "two_band_dmft_loop solve_skew (\<lambda>g. 0) ''half'' 4 1 (7 / 2) state_asym = Some b"
    by blast
  note Tab = T [where ?st1.0 = a and ?st2.0 = b]
  note A = Tab [THEN conjunct1, THEN mp, OF a]
  note B = Tab [THEN conjunct2, THEN conjunct2, THEN conjunct1, THEN mp, OF b]
  from A [THEN conjunct1] have 1: "printed a = map (\<lambda>i. print_iteration (i + 1) 10) [0..<10]"
    by (simp add: e)
  from A [THEN conjunct2] have 2: "archives a (one_band_file 4) ''G-9'' = Some (G_iw (S a))
      \<and> archives a (one_band_file 4) ''Sigma-9'' = Some (Sigma_iw (S a))
      \<and> archives a (one_band_file 4) ''G-10'' = None"
  proof (elim exE conjE)
    fix Gs Sigs W
    assume w: "\<forall>i<10.
              (\<forall>b k. W (Suc i) b k =
                 (if b = ''up'' \<or> b = ''down''
                  then inverse (iOmega_n one_band_beta k + complex_of_real (4 / 2)
                                - complex_of_real (one_band_t ^ 2)
                                  * (0.5 * (Gs i ''up'' k + Gs i ''down'' k)))
                  else W i b k))
            \<and> solve_skew (one_band_h_int 4)
                  \<lparr>n_cycles = 10000, length_cycle = None, n_warmup_cycles = 5000\<rparr> (W (Suc i))
                = Some (Gs (Suc i), Sigs (Suc i))
            \<and> archives a (one_band_file 4) (''G-'' @ fmt_i i) = Some (Gs (Suc i))
            \<and> archives a (one_band_file 4) (''Sigma-'' @ fmt_i i) = Some (Sigs (Suc i))"
      and g: "G_iw (S a) = Gs 10" "Sigma_iw (S a) = Sigs 10"
      and k: "\<forall>key. (\<forall>i<10. key \<noteq> ''G-'' @ fmt_i i \<and> key \<noteq> ''Sigma-'' @ fmt_i i) \<longrightarrow>
              archives a (one_band_file 4) key = archives state_asym (one_band_file 4) key"
    from w [rule_format, of 9] have "archives a (one_band_file 4) (''G-'' @ fmt_i 9) = Some (Gs 10)"
      "archives a (one_band_file 4) (''Sigma-'' @ fmt_i 9) = Some (Sigs 10)"
      by simp_all
    moreover from k [rule_format, of "''G-10''"] key_ten_fresh
    have "archives a (one_band_file 4) ''G-10'' = None"
      by (simp add: e)
    ultimately show ?thesis
      by (simp add: fmt_i_9 g)
  qed
  from B [THEN conjunct1] have 3: "filter is_iteration_line (printed b)
      = map (\<lambda>i. print_iteration (i + 1) 10) [0..<10]"
    by (simp add: e)
  from B [THEN conjunct2] have 4: "archives b (two_bands_file ''half'' 4 1) ''G-9'' = Some (G_iw (S b))
      \<and> archives b (two_bands_file ''half'' 4 1) ''Sigma-9'' = Some (Sigma_iw (S b))
      \<and> archives b (two_bands_file ''half'' 4 1) ''G-10'' = None"
  proof (elim exE conjE)
    fix Gs Sigs W
    assume w: "\<forall>i<10.
              (\<forall>b k. W (Suc i) b k =
                 (if 0 < i \<and> b \<in> {''up-0'', ''up-1'', ''down-0'', ''down-1''}
                  then inverse (iOmega_n two_band_beta k + complex_of_real (7 / 2)
                                - complex_of_real (two_band_t ^ 2)
                                  * (0.25 * (Gs i ''up-0'' k + Gs i ''up-1'' k
                                             + Gs i ''down-0'' k + Gs i ''down-1'' k)))
                  else W i b k))
            \<and> solve_skew (two_band_h_int 4 1)
                  \<lparr>n_cycles = 30000, length_cycle = Some 100, n_warmup_cycles = 5000\<rparr> (W (Suc i))
                = Some (Gs (Suc i), Sigs (Suc i))
            \<and> archives b (two_bands_file ''half'' 4 1) (''G-'' @ fmt_i i) = Some (Gs (Suc i))
            \<and> archives b (two_bands_file ''half'' 4 1) (''Sigma-'' @ fmt_i i) = Some (Sigs (Suc i))"
      and g: "G_iw (S b) = Gs 10" "Sigma_iw (S b) = Sigs 10"
      and k: "\<forall>key. (\<forall>i<10. key \<noteq> ''G-'' @ fmt_i i \<and> key \<noteq> ''Sigma-'' @ fmt_i i) \<longrightarrow>
              archives b (two_bands_file ''half'' 4 1) key
                = archives state_asym (two_bands_file ''half'' 4 1) key"
    from w [rule_format, of 9]
    have "archives b (two_bands_file ''half'' 4 1) (''G-'' @ fmt_i 9) = Some (Gs 10)"
      "archives b (two_bands_file ''half'' 4 1) (''Sigma-'' @ fmt_i 9) = Some (Sigs 10)"
      by simp_all
    moreover from k [rule_format, of "''G-10''"] key_ten_fresh
    have "archives b (two_bands_file ''half'' 4 1) ''G-10'' = None"
      by (simp add: e)
    ultimately show ?thesis
      by (simp add: fmt_i_9 g)
  qed
  from T4 [THEN conjunct2]
  have 5: "ipt_G0_tau (ipt_dmft_loop toy_Fourier_iw toy_Fourier_tau 4 (IPTSolver_init 10))
       = toy_Fourier_iw (ipt_G0_iw (ipt_dmft_loop toy_Fourier_iw toy_Fourier_tau 4 (IPTSolver_init 10)))"
  proof (elim exE conjE)
    fix Gs W Sigs Wt St
    assume w: "\<forall>i<30.
              W (Suc i) = (\<lambda>k. inverse (iOmega_n (ipt_beta (IPTSolver_init 10)) k
                                          - complex_of_real (ipt_t ^ 2) * Gs i k))
            \<and> Wt (Suc i) = toy_Fourier_iw (W (Suc i))
            \<and> St (Suc i) = (\<lambda>j. complex_of_real (4 ^ 2) * Wt (Suc i) j * Wt (Suc i) j * Wt (Suc i) j)
            \<and> Sigs (Suc i) = toy_Fourier_tau (St (Suc i))
            \<and> Gs (Suc i) = (\<lambda>k. inverse (inverse (W (Suc i) k) - Sigs (Suc i) k))"
      and r: "ipt_dmft_loop toy_Fourier_iw toy_Fourier_tau 4 (IPTSolver_init 10) =
            \<lparr>ipt_beta = ipt_beta (IPTSolver_init 10), ipt_G_iw = Gs 30, ipt_G0_iw = W 30,
             ipt_Sigma_iw = Sigs 30, ipt_G0_tau = Wt 30, ipt_Sigma_tau = St 30\<rparr>"
    from w [rule_format, of 29] have "Wt 30 = toy_Fourier_iw (W 30)" by simp
    then show ?thesis by (simp add: r)
  qed
  from a b 1 2 3 4 5 show ?thesis by simp
qed

section \<open>Properties of the bubble\<close>

lemma imtime_value_last:
  "2 \<le> mesh_size m \<Longrightarrow> imtime_value m (mesh_size m - 1) = mesh_beta m"
  by (simp add: imtime_value_def)

lemma imtime_value_mirror:
  assumes "2 \<le> mesh_size m" "i < mesh_size m"
  shows "mesh_beta m - imtime_value m i = imtime_value m (mesh_size m - 1 - i)"
proof -
  have "real (mesh_size m - 1 - i) = real (mesh_size m - 1) - real i"
    using assms by (simp add: of_nat_diff)
  moreover have "real (mesh_size m - 1) \<noteq> 0" using assms by simp
  ultimately show ?thesis
    by (simp add: imtime_value_def field_simps)
qed

lemma imtime_interpolate_grid:
  assumes "2 \<le> mesh_size m" "0 < mesh_beta m" "i < mesh_size m"
  shows "imtime_interpolate m f (imtime_value m i) = Some (f i)"
proof -
  define d where "d = mesh_beta m / real (mesh_size m - 1)"
  have dpos: "0 < d" using assms by (simp add: d_def)
  have v: "imtime_value m i = real i * d" by (simp add: imtime_value_def d_def)
  have top: "real (mesh_size m - 1) * d = mesh_beta m" using assms by (simp add: d_def)
  have "real i \<le> real (mesh_size m - 1)" using assms by simp
  then have "real i * d \<le> real (mesh_size m - 1) * d"
    using dpos by (simp add: mult_right_mono)
  then have le: "imtime_value m i \<le> mesh_beta m" using top v by simp
  have ge: "0 \<le> imtime_value m i" using dpos v by simp
  have cond: "\<not> (mesh_size m < 2 \<or> mesh_beta m \<le> 0 \<or> imtime_value m i < 0
                  \<or> mesh_beta m < imtime_value m i)"
    using assms le ge by simp
  have "imtime_value m i / d = real i" using dpos v by simp
  then have a: "imtime_value m i / (mesh_beta m / real (mesh_size m - 1)) = real i"
    unfolding d_def .
  have fl: "nat \<lfloor>real i\<rfloor> = i" by simp
  have unfolded: "imtime_interpolate m f (imtime_value m i) =
      Some (complex_of_real (1 - (real i - real (min i (mesh_size m - 2))))
              * f (min i (mesh_size m - 2))
            + complex_of_real (real i - real (min i (mesh_size m - 2)))
              * f (min i (mesh_size m - 2) + 1))"
    unfolding imtime_interpolate_def by (simp only: cond a fl if_False Let_def)
  show ?thesis
  proof (cases "i \<le> mesh_size m - 2")
    case True
    then have "min i (mesh_size m - 2) = i" by simp
    then show ?thesis unfolding unfolded by simp
  next
    case False
    with assms have i: "i = mesh_size m - 1" by simp
    then have mn: "min i (mesh_size m - 2) = mesh_size m - 2" by simp
    have s: "mesh_size m - 2 + 1 = i" using i assms by simp
    have w: "real i - real (mesh_size m - 2) = 1" using i assms by (simp add: of_nat_diff)
    show ?thesis unfolding unfolded mn s w by simp
  qed
qed

lemma imtime_interpolate_mirror:
  assumes "2 \<le> mesh_size m" "0 < mesh_beta m" "i < mesh_size m"
  shows "imtime_interpolate m f (mesh_beta m - imtime_value m i) = Some (f (mesh_size m - 1 - i))"
proof -
  have "mesh_size m - 1 - i < mesh_size m" using assms by simp
  then show ?thesis
    using imtime_interpolate_grid [OF assms(1) assms(2), of "mesh_size m - 1 - i" f]
      imtime_value_mirror [OF assms(1) assms(3)] by simp
qed

lemma cyclat_wrap_point:
  "r \<in> set (cyclat_points L) \<Longrightarrow> cyclat_wrap L r = r"
  by (auto simp: cyclat_points_def cyclat_wrap_def split: prod.splits)

lemma set_imtime_points: "t \<in> set (imtime_points m) \<longleftrightarrow> t < mesh_size m"
  by (simp add: imtime_points_def)

lemma bubble_point_grid:
  assumes "2 \<le> mesh_size (mesh_t grt)" "0 < mesh_beta (mesh_t grt)"
    and "mesh_beta mtb = mesh_beta (mesh_t grt)" "mesh_size mtb = mesh_size (mesh_t grt)"
    and "t < mesh_size (mesh_t grt)"
  shows "bubble_point grt mtb r t chi =
     Some (chi(r := (chi r)(t :=
        2 * data_r_t grt (cyclat_wrap (mesh_r grt) (neg_point r)) (mesh_size (mesh_t grt) - 1 - t)
          * data_r_t grt (cyclat_wrap (mesh_r grt) r) t)))"
proof -
  have same: "imtime_value mtb t = imtime_value (mesh_t grt) t"
    using assms(3,4) by (simp add: imtime_value_def)
  show ?thesis
    unfolding bubble_point_def Let_def evaluate_r_t_def same
    by (simp add: imtime_interpolate_grid [OF assms(1,2,5)]
        imtime_interpolate_mirror [OF assms(1,2,5)])
qed

lemma bubble_inner_loop:
  assumes "2 \<le> mesh_size (mesh_t grt)" "0 < mesh_beta (mesh_t grt)"
    and "mesh_beta mtb = mesh_beta (mesh_t grt)" "mesh_size mtb = mesh_size (mesh_t grt)"
  shows "\<forall>t \<in> set ts. t < mesh_size (mesh_t grt) \<Longrightarrow>
     for_each (bubble_point grt mtb r) ts chi =
       Some (\<lambda>r' t'. if r' = r \<and> t' \<in> set ts
          then 2 * data_r_t grt (cyclat_wrap (mesh_r grt) (neg_point r)) (mesh_size (mesh_t grt) - 1 - t')
                 * data_r_t grt (cyclat_wrap (mesh_r grt) r) t'
          else chi r' t')"
proof (induction ts arbitrary: chi)
  case Nil
  then show ?case by simp
next
  case (Cons t ts)
  then have t: "t < mesh_size (mesh_t grt)" and ts: "\<forall>t \<in> set ts. t < mesh_size (mesh_t grt)"
    by simp_all
  show ?case
    by (simp add: bubble_point_grid [OF assms t] Cons.IH [OF ts] fun_eq_iff)
qed

lemma bubble_outer_loop:
  assumes "2 \<le> mesh_size (mesh_t grt)" "0 < mesh_beta (mesh_t grt)"
    and "mesh_beta mtb = mesh_beta (mesh_t grt)" "mesh_size mtb = mesh_size (mesh_t grt)"
  shows "for_each (\<lambda>r. for_each (bubble_point grt mtb r) (imtime_points mtb)) rs chi =
       Some (\<lambda>r' t'. if r' \<in> set rs \<and> t' < mesh_size (mesh_t grt)
          then 2 * data_r_t grt (cyclat_wrap (mesh_r grt) (neg_point r')) (mesh_size (mesh_t grt) - 1 - t')
                 * data_r_t grt (cyclat_wrap (mesh_r grt) r') t'
          else chi r' t')"
proof (induction rs arbitrary: chi)
  case Nil
  then show ?case by simp
next
  case (Cons r rs)
  have inner: "for_each (bubble_point grt mtb r) (imtime_points mtb) chi =
       Some (\<lambda>r' t'. if r' = r \<and> t' \<in> set (imtime_points mtb)
          then 2 * data_r_t grt (cyclat_wrap (mesh_r grt) (neg_point r)) (mesh_size (mesh_t grt) - 1 - t')
                 * data_r_t grt (cyclat_wrap (mesh_r grt) r) t'
          else chi r' t')"
    by (rule bubble_inner_loop [OF assms]) (simp add: set_imtime_points assms(4))
  show ?case
    by (auto simp: inner Cons.IH fun_eq_iff set_imtime_points assms(4))
qed

lemma bubble_chi0_result:
  assumes "2 \<le> mesh_size (mesh_t grt)" "0 < mesh_beta (mesh_t grt)"
  shows "bubble_chi0 grt =
     Some \<lparr>mesh_r = mesh_r grt,
           mesh_t = \<lparr>mesh_beta = mesh_beta (mesh_t grt), mesh_statistic = Boson,
                      mesh_size = mesh_size (mesh_t grt)\<rparr>,
           data_r_t = (\<lambda>r t. if r \<in> set (cyclat_points (mesh_r grt)) \<and> t < mesh_size (mesh_t grt)
              then 2 * data_r_t grt (cyclat_wrap (mesh_r grt) (neg_point r)) (mesh_size (mesh_t grt) - 1 - t)
                     * data_r_t grt (cyclat_wrap (mesh_r grt) r) t
              else 0)\<rparr>"
proof -
  let ?mtb = "\<lparr>mesh_beta = mesh_beta (mesh_t grt), mesh_statistic = Boson,
                      mesh_size = mesh_size (mesh_t grt)\<rparr>"
  have loop: "for_each (\<lambda>r. for_each (bubble_point grt ?mtb r) (imtime_points ?mtb))
       (cyclat_points (mesh_r grt)) (\<lambda>r t. 0) =
       Some (\<lambda>r t. if r \<in> set (cyclat_points (mesh_r grt)) \<and> t < mesh_size (mesh_t grt)
          then 2 * data_r_t grt (cyclat_wrap (mesh_r grt) (neg_point r)) (mesh_size (mesh_t grt) - 1 - t)
                 * data_r_t grt (cyclat_wrap (mesh_r grt) r) t
          else 0)"
    by (rule bubble_outer_loop [OF assms]) simp_all
  show ?thesis
    unfolding bubble_chi0_def Let_def by (simp add: loop)
qed

text \<open>With it \<open>bubble\<close> returns the transform of that \<open>chi0\<close>.\<close>

lemma bubble_defined:
  assumes "2 \<le> mesh_size (mesh_t (fourier_k_w G0))" "0 < mesh_beta (mesh_t (fourier_k_w G0))"
  shows "\<exists>chi0. bubble_chi0 (fourier_k_w G0) = Some chi0
           \<and> bubble fourier_k_w fourier_r_t G0 = Some (fourier_r_t chi0)"
  by (simp add: bubble_def bubble_chi0_result [OF assms])

text \<open>
  C1. On a time mesh of at least two points with \<open>\<beta> > 0\<close> the loops of \<open>bubble\<close>
  come to their end, and for every mesh point \<open>r\<close> of the lattice and every point
  \<open>\<tau>\<^sub>t\<close> of the bosonic mesh the value stored in \<open>chi0\<close> is
  \<open>2 G(r, \<tau>\<^sub>t) G(-r, \<beta> - \<tau>\<^sub>t)\<close>: the two evaluations of \<open>grt\<close> hit grid points,
  the stored values at \<open>(r, t)\<close> and at \<open>(-r\<close> modulo the lattice, \<open>n - 1 - t)\<close>.
\<close>

theorem bubble_pointwise_product:
  assumes "2 \<le> mesh_size (mesh_t grt)" "0 < mesh_beta (mesh_t grt)"
  shows "\<exists>chi0. bubble_chi0 grt = Some chi0 \<and>
     (\<forall>r \<in> set (cyclat_points (mesh_r grt)). \<forall>t < mesh_size (mesh_t grt).
        evaluate_r_t grt r (imtime_value (mesh_t chi0) t) = Some (data_r_t grt r t)
        \<and> evaluate_r_t grt (neg_point r) (mesh_beta (mesh_t grt) - imtime_value (mesh_t chi0) t)
            = Some (data_r_t grt (cyclat_wrap (mesh_r grt) (neg_point r))
                      (mesh_size (mesh_t grt) - 1 - t))
        \<and> data_r_t chi0 r t =
            2 * data_r_t grt r t
              * data_r_t grt (cyclat_wrap (mesh_r grt) (neg_point r))
                  (mesh_size (mesh_t grt) - 1 - t))"
proof -
  let ?mtb = "\<lparr>mesh_beta = mesh_beta (mesh_t grt), mesh_statistic = Boson,
                      mesh_size = mesh_size (mesh_t grt)\<rparr>"
  have same: "imtime_value ?mtb t = imtime_value (mesh_t grt) t" for t
    by (simp add: imtime_value_def)
  show ?thesis
    unfolding bubble_chi0_result [OF assms]
    by (auto simp: same evaluate_r_t_def cyclat_wrap_point
        imtime_interpolate_grid [OF assms] imtime_interpolate_mirror [OF assms])
qed

theorem bubble_pointwise_product_witness:
  "\<exists>chi0. bubble_chi0 toy_grt = Some chi0
     \<and> data_r_t toy_grt (1, 0, 0) 0 = 2
     \<and> data_r_t toy_grt (2, 0, 0) 2 = Complex 3 2
     \<and> data_r_t chi0 (1, 0, 0) 0 = Complex 12 8"
proof -
  have v: "2 \<le> mesh_size (mesh_t toy_grt)" "0 < mesh_beta (mesh_t toy_grt)"
    by (simp_all add: toy_grt_def)
  have r: "(1, 0, 0) \<in> set (cyclat_points (mesh_r toy_grt))"
    by (simp add: toy_grt_def cyclat_points_def upt_rec)
  from bubble_pointwise_product [OF v] obtain chi0 where
    c: "bubble_chi0 toy_grt = Some chi0" and
    p: "\<forall>r \<in> set (cyclat_points (mesh_r toy_grt)). \<forall>t < mesh_size (mesh_t toy_grt).
        data_r_t chi0 r t =
            2 * data_r_t toy_grt r t
              * data_r_t toy_grt (cyclat_wrap (mesh_r toy_grt) (neg_point r))
                  (mesh_size (mesh_t toy_grt) - 1 - t)"
    by blast
  from p r have "data_r_t chi0 (1, 0, 0) 0 =
      2 * data_r_t toy_grt (1, 0, 0) 0
        * data_r_t toy_grt (cyclat_wrap (mesh_r toy_grt) (neg_point (1, 0, 0)))
            (mesh_size (mesh_t toy_grt) - 1 - 0)"
    by (simp add: toy_grt_def)
  then have "data_r_t chi0 (1, 0, 0) 0 = Complex 12 8"
    by (simp add: toy_grt_def cyclat_wrap_def neg_point_def complex_eq_iff)
  with c show ?thesis
    by (auto simp: toy_grt_def complex_eq_iff)
qed

text \<open>
  C7. The time mesh of \<open>chi0\<close> is bosonic and has the inverse temperature and the
  number of points of the time mesh of the transformed input.
\<close>

theorem bubble_time_mesh_is_bosonic:
  "bubble_chi0 (fourier_k_w G0) = Some chi0 \<Longrightarrow>
     mesh_statistic (mesh_t chi0) = Boson
     \<and> mesh_beta (mesh_t chi0) = mesh_beta (mesh_t (fourier_k_w G0))
     \<and> mesh_size (mesh_t chi0) = mesh_size (mesh_t (fourier_k_w G0))"
  by (auto simp: bubble_chi0_def Let_def split: option.splits)

theorem bubble_time_mesh_is_bosonic_witness:
  "\<exists>chi0. bubble_chi0 toy_grt = Some chi0
     \<and> mesh_statistic (mesh_t toy_grt) = Fermion
     \<and> mesh_statistic (mesh_t chi0) = Boson
     \<and> mesh_beta (mesh_t chi0) = 2
     \<and> mesh_size (mesh_t chi0) = 3"
proof -
  have "2 \<le> mesh_size (mesh_t toy_grt)" "0 < mesh_beta (mesh_t toy_grt)"
    by (simp_all add: toy_grt_def)
  then obtain chi0 where c: "bubble_chi0 toy_grt = Some chi0"
    using bubble_chi0_result by blast
  then have "bubble_chi0 (id toy_grt) = Some chi0" by simp
  from bubble_time_mesh_is_bosonic [of id toy_grt chi0, OF this] c show ?thesis
    by (simp add: toy_grt_def)
qed

section \<open>Properties of the evaluation\<close>




end
